theory Spec2Isabelle
  imports Complex_Main "HOL-Library.Sublist"
begin

section \<open>Values exchanged with the backend\<close>

text \<open>
  The script \<^verbatim>\<open>static/assistant.js\<close> drives a chat page: it submits a turn, polls the
  pipeline status, polls the finished message for its critique, and refreshes score badges
  in the background. JavaScript runs each callback to completion on one event queue, so
  every continuation between two \<^verbatim>\<open>await\<close>s is modelled as one function on the page
  state, and an interleaving is a list of such continuations.

  Identifiers are the strings that end up in the \<^verbatim>\<open>data-message-id\<close> attribute; they
  are taken to be free of quote characters, so that the attribute selectors the script
  builds from them are well formed. A critic score is a JSON number, \<^verbatim>\<open>null\<close>, or
  missing (\<^verbatim>\<open>undefined\<close>); numbers are modelled by the rational they denote. The other
  fields have the types of the HTTP contract: statuses, contents and texts are strings, and
  a field that may be missing is an option.

  Left out, because no property below depends on them: console output, scrolling, the
  opacity toggle of \<^verbatim>\<open>pollCriticScores\<close>, the chat id display, and the preference and
  toggle requests of the second assistant.
\<close>

type_synonym ident = string

datatype critic_score = Undefined | Null | Number rat

text \<open>Truthiness of an optional string: missing, \<^verbatim>\<open>null\<close> and \<^verbatim>\<open>''\<close> are falsy.\<close>

definition truthy_str :: "string option \<Rightarrow> bool" where
  "truthy_str v = (case v of None \<Rightarrow> False | Some s \<Rightarrow> s \<noteq> [])"

text \<open>Truthiness of a score: missing, \<^verbatim>\<open>null\<close> and \<^verbatim>\<open>0\<close> are falsy.\<close>

definition truthy_score :: "critic_score \<Rightarrow> bool" where
  "truthy_score v = (case v of Undefined \<Rightarrow> False | Null \<Rightarrow> False | Number x \<Rightarrow> x \<noteq> 0)"

record critique_section =
  sec_score :: "rat option"
  sec_reason :: "string option"

record critique =
  total_score :: "rat option"
  adherence_to_search :: "critique_section option"
  question_format :: "critique_section option"
  conversational_quality :: "critique_section option"
  contextual_intelligence :: "critique_section option"
  overall_effectiveness :: "critique_section option"
  summary :: "string option"

text \<open>The object that \<^verbatim>\<open>JSON.parse(search_output)\<close> yields.\<close>

record search_data =
  sd_critique :: "critique option"
  sd_regenerated_content :: "string option"
  sd_regenerated_total :: "rat option"

text \<open>
  The \<^verbatim>\<open>search_output\<close> field of a message detail record, together with the outcome
  of parsing it: \<open>NoOutput\<close> is a falsy field (missing, \<^verbatim>\<open>null\<close> or empty),
  \<open>Malformed\<close> is text on which \<^verbatim>\<open>JSON.parse\<close> throws, \<open>ParsedNull\<close> is text
  that parses to \<^verbatim>\<open>null\<close> (the text \<^verbatim>\<open>null\<close>, possibly with blanks around it), on
  which every read of a property throws, and \<open>Parsed\<close> is text that parses to the
  given object. Text that parses to a number, a string or a boolean reads as an object
  without any of the fields.
\<close>

datatype search_output = NoOutput | Malformed | ParsedNull | Parsed search_data

record message_detail =
  md_id :: ident
  md_critic_score :: critic_score
  md_search_output :: search_output

record search_results =
  num_matches :: "nat option"
  show_results_to_actor :: bool
  results :: "string option"

text \<open>
  \<^verbatim>\<open>processing_data\<close> of a status snapshot. \<open>ner_results\<close> is an object in the
  source; it is carried here as the text \<^verbatim>\<open>JSON.stringify\<close> prints for it.
\<close>

record processing_data =
  ner_results :: "string option"
  search_call :: "string option"
  pd_search_results :: "search_results option"
  thinking :: "string option"

record status_data =
  st_status :: string
  st_message_id :: ident
  st_content :: "string option"
  st_critic_score :: critic_score
  st_processing_data :: "processing_data option"

text \<open>
  What a \<^verbatim>\<open>fetch\<close> followed by \<^verbatim>\<open>response.json()\<close> can give: the promise rejects
  (transport error, or a body that is not JSON), the response has \<^verbatim>\<open>ok = false\<close>, or
  the body arrives.
\<close>

datatype 'a fetched = Rejected | NotOk | Ok 'a

section \<open>The rendered page\<close>

datatype colour = Red | Green | Blue | Yellow

text \<open>
  The text of a score badge is kept symbolically: nothing yet, \<^verbatim>\<open>String(x)\<close> of a
  number, or \<^verbatim>\<open>x.toFixed(1)\<close>.
\<close>

datatype badge_text = Blank | AsString rat | ToFixed1 rat

record badge =
  badge_colour :: colour
  badge_shown :: badge_text

datatype role = User | Assistant

record bubble =
  data_message_id :: "ident option"
  data_parent_id :: "ident option"
  data_output_number :: "nat option"
  dummy_message :: bool
  bubble_role :: role
  bubble_text :: string
  critic_badge :: "badge option"
  prefer_button :: bool
  data_critique_displayed :: bool

text \<open>The blocks that make up the \<^verbatim>\<open>innerHTML\<close> of a processing-steps container.\<close>

datatype block =
    Heading string
  | Spinner string
  | StatusLine colour string
  | NerBlock string
  | SearchCallBlock string
  | SearchResultsBlock "nat option" bool string
  | ThinkingBlock string
  | CritiqueBlock critique
  | RegeneratedBlock string "rat option" "rat option"

text \<open>
  A child of the \<^verbatim>\<open>#messages\<close> container: a message bubble, the processing-steps
  container of a turn (\<^verbatim>\<open>id = 'processing-steps-' + messageId\<close>), or a critique
  container built by \<^verbatim>\<open>displayCritiqueAndRegeneration\<close> from the given object.
\<close>

datatype node =
    Bubble bubble
  | Steps ident "block list"
  | CritiqueContainer search_data

text \<open>
  The page: the session id, the value of the input field, the second-assistant toggle, the
  children of \<^verbatim>\<open>#messages\<close>, the texts of the \<^verbatim>\<open>sendToServer\<close> calls that
  \<^verbatim>\<open>handleSend\<close> has scheduled with \<^verbatim>\<open>setTimeout\<close>, the message ids whose detail
  record the score refresher has requested and not yet received, and the number of its
  score requests that are not yet answered. The calls a handler makes
  to the rendering functions are recorded in program order in \<open>calls\<close>; this log is
  instrumentation, the other fields are state of the script. Console output is not modelled.
\<close>

datatype call =
    Call_removePlaceholders
  | Call_addMessageToChat ident
  | Call_updateProcessingStepsDisplay string
  | Call_displayCritiqueInSteps ident
  | Call_appendCritiqueContainer ident
  | Call_updateCriticBadge ident
  | Call_startStatusPolling ident
  | Call_startCriticPolling ident
  | Call_fetchChat string

record page =
  currentChatId :: "string option"
  user_input :: string
  second_assistant :: bool
  messages :: "node list"
  timeouts :: "string list"
  detail_fetches :: "ident list"
  score_fetches :: nat
  calls :: "call list"

section \<open>Selectors\<close>

text \<open>
  \<^verbatim>\<open>querySelector("[data-message-id='" + id + "']")\<close> returns the first element that
  carries the attribute with that value.
\<close>

definition has_message_id :: "ident \<Rightarrow> node \<Rightarrow> bool" where
  "has_message_id i n = (case n of Bubble b \<Rightarrow> data_message_id b = Some i | _ \<Rightarrow> False)"

fun update_first :: "('a \<Rightarrow> bool) \<Rightarrow> ('a \<Rightarrow> 'a) \<Rightarrow> 'a list \<Rightarrow> 'a list" where
  "update_first P f [] = []"
| "update_first P f (x # xs) = (if P x then f x # xs else x # update_first P f xs)"

definition on_bubble :: "(bubble \<Rightarrow> bubble) \<Rightarrow> node \<Rightarrow> node" where
  "on_bubble f n = (case n of Bubble b \<Rightarrow> Bubble (f b) | _ \<Rightarrow> n)"

definition is_steps :: "ident \<Rightarrow> node \<Rightarrow> bool" where
  "is_steps i n = (case n of Steps j _ \<Rightarrow> j = i | _ \<Rightarrow> False)"

definition on_steps :: "(block list \<Rightarrow> block list) \<Rightarrow> node \<Rightarrow> node" where
  "on_steps f n = (case n of Steps j bs \<Rightarrow> Steps j (f bs) | _ \<Rightarrow> n)"

text \<open>\<^verbatim>\<open>.dummy-message\<close> and \<^verbatim>\<open>.assistant-message:not([data-message-id])\<close>.\<close>

definition is_dummy :: "node \<Rightarrow> bool" where
  "is_dummy n = (case n of Bubble b \<Rightarrow> dummy_message b | _ \<Rightarrow> False)"

definition is_unidentified_assistant :: "node \<Rightarrow> bool" where
  "is_unidentified_assistant n =
     (case n of Bubble b \<Rightarrow> bubble_role b = Assistant \<and> data_message_id b = None | _ \<Rightarrow> False)"

section \<open>addMessageToChat, removePlaceholders, updateCriticBadge\<close>

text \<open>The text a badge gets from \<^verbatim>\<open>criticCircle.textContent = criticScore\<close>.\<close>

definition text_of_score :: "critic_score \<Rightarrow> badge_text" where
  "text_of_score v = (case v of Number x \<Rightarrow> AsString x | _ \<Rightarrow> Blank)"

definition set_red_badge :: "critic_score \<Rightarrow> bubble \<Rightarrow> bubble" where
  "set_red_badge v b =
     (case critic_badge b of
        None \<Rightarrow> b\<lparr>critic_badge := Some \<lparr>badge_colour = Red, badge_shown = text_of_score v\<rparr>\<rparr>
      | Some c \<Rightarrow> b\<lparr>critic_badge := Some (c\<lparr>badge_shown := text_of_score v\<rparr>)\<rparr>)"

definition new_bubble ::
  "bool \<Rightarrow> ident \<Rightarrow> string \<Rightarrow> role \<Rightarrow> critic_score \<Rightarrow> bool \<Rightarrow> ident option \<Rightarrow> nat option \<Rightarrow> bubble"
where
  "new_bubble enabled i txt r v isDummy parentId outputNumber =
     \<lparr>data_message_id = Some i,
      data_parent_id = (if truthy_str parentId then parentId else None),
      data_output_number = (case outputNumber of None \<Rightarrow> None
                            | Some k \<Rightarrow> if k = 0 then None else Some k),
      dummy_message = isDummy,
      bubble_role = r,
      bubble_text = txt,
      critic_badge = (if r = Assistant \<and> v \<noteq> Undefined
                      then Some \<lparr>badge_colour = Red, badge_shown = text_of_score v\<rparr> else None),
      prefer_button = (r = Assistant \<and> enabled \<and>
                       (case outputNumber of None \<Rightarrow> False | Some k \<Rightarrow> k \<noteq> 0)),
      data_critique_displayed = False\<rparr>"

text \<open>
  \<^verbatim>\<open>addMessageToChat(id, text, role, criticScore, isDummy, parentId, outputNumber)\<close> on the
  children of \<^verbatim>\<open>#messages\<close>; \<open>enabled\<close> is the state of the second-assistant toggle.
  When an element with the id exists, only its badge is touched (and only for a score that
  is not \<^verbatim>\<open>undefined\<close>) and nothing is appended.
\<close>

definition addMessageToChat ::
  "bool \<Rightarrow> ident \<Rightarrow> string \<Rightarrow> role \<Rightarrow> critic_score \<Rightarrow> bool \<Rightarrow> ident option \<Rightarrow> nat option
     \<Rightarrow> node list \<Rightarrow> node list"
where
  "addMessageToChat enabled i txt r v isDummy parentId outputNumber els =
     (if list_ex (has_message_id i) els
      then (if v \<noteq> Undefined
            then update_first (has_message_id i) (on_bubble (set_red_badge v)) els
            else els)
      else els @ [Bubble (new_bubble enabled i txt r v isDummy parentId outputNumber)])"

definition removePlaceholders :: "node list \<Rightarrow> node list" where
  "removePlaceholders els =
     filter (\<lambda>n. \<not> is_unidentified_assistant n) (filter (\<lambda>n. \<not> is_dummy n) els)"

definition clearAllMessages :: "node list \<Rightarrow> node list" where
  "clearAllMessages els = []"

text \<open>The colour \<^verbatim>\<open>updateCriticBadge\<close> picks for a badge it creates.\<close>

definition colour_of_score :: "rat \<Rightarrow> colour" where
  "colour_of_score x =
     (if x \<ge> 9 then Green else if x \<ge> 8 then Blue else if x \<ge> 7 then Yellow else Red)"

definition set_fixed_badge :: "rat \<Rightarrow> bubble \<Rightarrow> bubble" where
  "set_fixed_badge x b =
     (case critic_badge b of
        None \<Rightarrow> b\<lparr>critic_badge := Some \<lparr>badge_colour = colour_of_score x, badge_shown = ToFixed1 x\<rparr>\<rparr>
      | Some c \<Rightarrow> b\<lparr>critic_badge := Some (c\<lparr>badge_shown := ToFixed1 x\<rparr>)\<rparr>)"

text \<open>
  \<^verbatim>\<open>updateCriticBadge(messageId, score)\<close>: nothing when no element has the id; otherwise
  the badge is created, coloured by the score, if the element has none, and in every case
  its text becomes \<^verbatim>\<open>parseFloat(score).toFixed(1)\<close>.
\<close>

definition updateCriticBadge :: "ident \<Rightarrow> rat \<Rightarrow> node list \<Rightarrow> node list" where
  "updateCriticBadge messageId x els =
     update_first (has_message_id messageId) (on_bubble (set_fixed_badge x)) els"

text \<open>The badge of the first element with the given id, if that element has one.\<close>

definition badge_of :: "ident \<Rightarrow> node list \<Rightarrow> badge option" where
  "badge_of i els =
     (case find (has_message_id i) els of
        Some (Bubble b) \<Rightarrow> critic_badge b
      | _ \<Rightarrow> None)"

section \<open>Rendering the processing steps\<close>

definition statusMap :: "(string \<times> string) list" where
  "statusMap =
     [(''processing_started'', ''Starting Processing...''),
      (''ner_started'', ''Extracting Travel Preferences...''),
      (''ner_completed'', ''Preferences Extracted''),
      (''ner_error'', ''Error Extracting Preferences''),
      (''search_started'', ''Generating Search Query...''),
      (''search_call_completed'', ''Search Query Generated''),
      (''search_completed'', ''Search Results Retrieved''),
      (''search_error'', ''Error in Search Processing''),
      (''generating_response'', ''Generating Assistant Response...''),
      (''response_generated'', ''Response Generated''),
      (''response_error'', ''Error Generating Response''),
      (''completed'', ''Processing Complete''),
      (''error'', ''Error Occurred'')]"

text \<open>
  \<^verbatim>\<open>statusMap[status] || status\<close>: the label of a known status, else the status. (A
  status that names a property every JavaScript object inherits, such as
  \<^verbatim>\<open>constructor\<close>, would read that property; no status code does.)
\<close>

definition formatStatus :: "string \<Rightarrow> string" where
  "formatStatus status = (case map_of statusMap status of Some label \<Rightarrow> label | None \<Rightarrow> status)"

text \<open>\<^verbatim>\<open>bg-red-100\<close>, \<^verbatim>\<open>bg-green-100\<close> or \<^verbatim>\<open>bg-blue-100\<close>.\<close>

definition getStatusColorClass :: "string \<Rightarrow> colour" where
  "getStatusColorClass status =
     (if status = ''error'' \<or> sublist ''error'' status then Red
      else if status = ''completed'' \<or> status = ''response_generated'' then Green
      else Blue)"

definition search_results_block :: "search_results \<Rightarrow> block" where
  "search_results_block r =
     SearchResultsBlock
       (case num_matches r of None \<Rightarrow> None | Some k \<Rightarrow> if k = 0 then None else Some k)
       (show_results_to_actor r)
       (case results r of None \<Rightarrow> [] | Some t \<Rightarrow> t)"

text \<open>A section that is written only for a truthy field: \<^verbatim>\<open>if (data.f) html += ...\<close>.\<close>

definition when_truthy :: "(string \<Rightarrow> block) \<Rightarrow> string option \<Rightarrow> block list" where
  "when_truthy mk v = (case v of None \<Rightarrow> [] | Some s \<Rightarrow> if s = [] then [] else [mk s])"

text \<open>
  \<^verbatim>\<open>updateProcessingStepsDisplay(statusData, container)\<close> assigns
  \<^verbatim>\<open>container.innerHTML\<close>; the function below is the value it assigns. It is built from
  the snapshot alone.
\<close>

definition updateProcessingStepsDisplay :: "status_data \<Rightarrow> block list" where
  "updateProcessingStepsDisplay statusData =
     (case st_processing_data statusData of
        None \<Rightarrow>
          [Heading ''Processing Your Request'',
           StatusLine Blue (formatStatus (st_status statusData))]
      | Some d \<Rightarrow>
          [Heading ''Processing Steps'',
           StatusLine (getStatusColorClass (st_status statusData))
                      (formatStatus (st_status statusData))]
          @ when_truthy NerBlock (ner_results d)
          @ when_truthy SearchCallBlock (search_call d)
          @ (case pd_search_results d of None \<Rightarrow> [] | Some r \<Rightarrow> [search_results_block r])
          @ when_truthy ThinkingBlock (thinking d))"

text \<open>The content of the steps container of a turn, when the page has one.\<close>

definition steps_of :: "ident \<Rightarrow> node list \<Rightarrow> block list option" where
  "steps_of i els = (case find (is_steps i) els of Some (Steps _ bs) \<Rightarrow> Some bs | _ \<Rightarrow> None)"

section \<open>The status polling loop\<close>

text \<open>
  The closure of one \<^verbatim>\<open>startStatusPolling(messageId)\<close> call: its two local variables
  and whether its interval timer is still set. The steps container the closure holds is
  the \<open>Steps\<close> node with the loop's message id.
\<close>

record status_loop =
  sl_messageId :: ident
  lastStatus :: string
  finalResponseShown :: bool
  pollInterval_set :: bool

text \<open>
  The closure of one \<^verbatim>\<open>startCriticPolling(messageId, stepsContainer)\<close> call: its local
  variable, whether its interval timer is still set, and the number of its detail requests
  that are not yet answered.
\<close>

record critic_loop =
  cl_messageId :: ident
  criticShown :: bool
  criticInterval_set :: bool
  critic_fetches :: nat

definition log_call :: "call \<Rightarrow> page \<Rightarrow> page" where
  "log_call c p = p\<lparr>calls := calls p @ [c]\<rparr>"

definition startStatusPolling :: "ident \<Rightarrow> page \<Rightarrow> status_loop \<times> page" where
  "startStatusPolling messageId p =
     (\<lparr>sl_messageId = messageId, lastStatus = [], finalResponseShown = False,
       pollInterval_set = True\<rparr>,
      log_call (Call_startStatusPolling messageId)
        (p\<lparr>messages := messages p @
              [Steps messageId [Heading ''Processing Your Request'', Spinner ''Initializing...'']]\<rparr>))"

definition startCriticPolling :: "ident \<Rightarrow> critic_loop" where
  "startCriticPolling messageId =
     \<lparr>cl_messageId = messageId, criticShown = False, criticInterval_set = True,
      critic_fetches = 0\<rparr>"

definition is_final_status :: "string \<Rightarrow> bool" where
  "is_final_status s = (s = ''response_generated'' \<or> s = ''completed'' \<or> s = ''error'')"

text \<open>The first \<^verbatim>\<open>if\<close> of the interval callback: render when the status changed.\<close>

definition status_render :: "status_data \<Rightarrow> status_loop \<times> page \<Rightarrow> status_loop \<times> page" where
  "status_render statusData lp =
     (case lp of (l, p) \<Rightarrow>
        if st_status statusData \<noteq> lastStatus l \<or> lastStatus l = []
        then (l\<lparr>lastStatus := st_status statusData\<rparr>,
              log_call (Call_updateProcessingStepsDisplay (st_status statusData))
                (p\<lparr>messages := update_first (is_steps (sl_messageId l))
                       (on_steps (\<lambda>_. updateProcessingStepsDisplay statusData)) (messages p)\<rparr>))
        else (l, p))"

text \<open>The second \<^verbatim>\<open>if\<close>: show the response, stop the timer, hand over to the critic loop.\<close>

definition status_finish :: "status_data \<Rightarrow> status_loop \<times> page \<Rightarrow> status_loop \<times> page" where
  "status_finish statusData lp =
     (case lp of (l, p) \<Rightarrow>
        (case st_content statusData of
           None \<Rightarrow> (l, p)
         | Some content \<Rightarrow>
             if is_final_status (st_status statusData) \<and> \<not> finalResponseShown l \<and> content \<noteq> []
             then (l\<lparr>finalResponseShown := True, pollInterval_set := False\<rparr>,
                   log_call (Call_startCriticPolling (sl_messageId l))
                     (log_call (Call_addMessageToChat (st_message_id statusData))
                       (log_call Call_removePlaceholders p)
                         \<lparr>messages :=
                            addMessageToChat (second_assistant p) (st_message_id statusData)
                              content Assistant (st_critic_score statusData)
                              False None None (removePlaceholders (messages p))\<rparr>))
             else (l, p)))"

text \<open>
  One run of the interval callback of \<^verbatim>\<open>startStatusPolling\<close>, from the arrival of the
  poll's outcome to the end of the callback. A rejected request ends in the \<^verbatim>\<open>catch\<close>,
  which writes to the console; a response that is not ok clears the timer.
\<close>

definition status_poll :: "status_data fetched \<Rightarrow> status_loop \<times> page \<Rightarrow> status_loop \<times> page" where
  "status_poll r lp =
     (case r of
        Rejected \<Rightarrow> lp
      | NotOk \<Rightarrow> (case lp of (l, p) \<Rightarrow> (l\<lparr>pollInterval_set := False\<rparr>, p))
      | Ok statusData \<Rightarrow> status_finish statusData (status_render statusData lp))"

text \<open>The loop over the snapshots of the polls that succeed, in the order they arrive.\<close>

definition status_polls :: "status_data list \<Rightarrow> status_loop \<times> page \<Rightarrow> status_loop \<times> page" where
  "status_polls ds lp = fold (\<lambda>d. status_poll (Ok d)) ds lp"

section \<open>The critic polling loop\<close>

definition displayCritiqueInSteps :: "search_data \<Rightarrow> block list \<Rightarrow> block list" where
  "displayCritiqueInSteps searchData bs =
     bs @ (case sd_critique searchData of None \<Rightarrow> [] | Some c \<Rightarrow> [CritiqueBlock c])
        @ when_truthy
            (\<lambda>t. RegeneratedBlock t
                   (case sd_critique searchData of None \<Rightarrow> None | Some c \<Rightarrow> total_score c)
                   (sd_regenerated_total searchData))
            (sd_regenerated_content searchData)"

definition has_critic_data :: "search_data \<Rightarrow> bool" where
  "has_critic_data searchData =
     (sd_critique searchData \<noteq> None \<or> truthy_str (sd_regenerated_content searchData))"

definition critic_show :: "search_data \<Rightarrow> critic_loop \<times> page \<Rightarrow> critic_loop \<times> page" where
  "critic_show searchData lp =
     (case lp of (l, p) \<Rightarrow>
        if has_critic_data searchData \<and> \<not> criticShown l
        then (l\<lparr>criticShown := True, criticInterval_set := False\<rparr>,
              log_call (Call_displayCritiqueInSteps (cl_messageId l))
                (p\<lparr>messages := update_first (is_steps (cl_messageId l))
                       (on_steps (displayCritiqueInSteps searchData)) (messages p)\<rparr>))
        else (l, p))"

definition critic_refresh_badge :: "message_detail \<Rightarrow> critic_loop \<times> page \<Rightarrow> critic_loop \<times> page" where
  "critic_refresh_badge msgData lp =
     (case lp of (l, p) \<Rightarrow>
        (case md_critic_score msgData of
           Number x \<Rightarrow>
             if x \<noteq> 0
             then (l, log_call (Call_updateCriticBadge (md_id msgData))
                        (p\<lparr>messages := updateCriticBadge (md_id msgData) x (messages p)\<rparr>))
             else (l, p)
         | _ \<Rightarrow> (l, p)))"

text \<open>
  A tick of the loop's timer, which fires only while the timer is set: the callback starts
  and requests the detail record of the message.
\<close>

definition critic_tick :: "critic_loop \<Rightarrow> critic_loop" where
  "critic_tick l =
     (if criticInterval_set l then l\<lparr>critic_fetches := Suc (critic_fetches l)\<rparr> else l)"

text \<open>
  The interval callback of \<^verbatim>\<open>startCriticPolling\<close> from the arrival of the poll's outcome
  to its end. The callback returns before the badge update when the record has no
  \<^verbatim>\<open>search_output\<close>. The badge update stands in the \<^verbatim>\<open>try\<close> that parses the text,
  behind the read of \<^verbatim>\<open>searchData.critique\<close>: the inner \<^verbatim>\<open>catch\<close> skips it when the
  text does not parse, and when it parses to \<^verbatim>\<open>null\<close>, on which that read throws.
\<close>

definition critic_poll :: "message_detail fetched \<Rightarrow> critic_loop \<times> page \<Rightarrow> critic_loop \<times> page" where
  "critic_poll r lp =
     (case r of
        Rejected \<Rightarrow> lp
      | NotOk \<Rightarrow> (case lp of (l, p) \<Rightarrow> (l\<lparr>criticInterval_set := False\<rparr>, p))
      | Ok msgData \<Rightarrow>
          (case md_search_output msgData of
             NoOutput \<Rightarrow> lp
           | Malformed \<Rightarrow> lp
           | ParsedNull \<Rightarrow> lp
           | Parsed searchData \<Rightarrow> critic_refresh_badge msgData (critic_show searchData lp)))"

section \<open>The background score refresher\<close>

record score_obj =
  so_id :: ident
  so_critic_score :: critic_score

text \<open>
  One decimal place, as \<^verbatim>\<open>toFixed(1)\<close> rounds: the number of tenths nearest to the
  value, a tie going away from zero. (JavaScript rounds the binary value of the number, so
  a decimal that lies exactly between two tenths may go the other way there; a score with
  at most one decimal place is not affected.)
\<close>

definition tenths :: "rat \<Rightarrow> int" where
  "tenths y = (if y < 0 then - \<lfloor>- y * 10 + 1 / 2\<rfloor> else \<lfloor>y * 10 + 1 / 2\<rfloor>)"

text \<open>
  \<^verbatim>\<open>criticCircle.textContent === score.toString()\<close> for a number \<open>x\<close>. A text written
  by \<^verbatim>\<open>toFixed(1)\<close> always has one decimal digit, so it is the shortest form of \<open>x\<close>
  only when \<open>x\<close> is a whole number of tenths that is not a whole number.
\<close>

definition shows_number :: "badge_text \<Rightarrow> rat \<Rightarrow> bool" where
  "shows_number t x =
     (case t of
        Blank \<Rightarrow> False
      | AsString y \<Rightarrow> y = x
      | ToFixed1 y \<Rightarrow> of_int \<lfloor>x * 10\<rfloor> = x * 10 \<and> \<lfloor>x * 10\<rfloor> mod 10 \<noteq> 0 \<and> tenths y = \<lfloor>x * 10\<rfloor>)"

definition ensure_red_badge :: "bubble \<Rightarrow> bubble" where
  "ensure_red_badge b =
     (case critic_badge b of
        None \<Rightarrow> b\<lparr>critic_badge := Some \<lparr>badge_colour = Red, badge_shown = Blank\<rparr>\<rparr>
      | Some c \<Rightarrow> b)"

definition set_badge_text :: "badge_text \<Rightarrow> bubble \<Rightarrow> bubble" where
  "set_badge_text t b =
     (case critic_badge b of None \<Rightarrow> b | Some c \<Rightarrow> b\<lparr>critic_badge := Some (c\<lparr>badge_shown := t\<rparr>)\<rparr>)"

definition critique_displayed_of :: "ident \<Rightarrow> node list \<Rightarrow> bool" where
  "critique_displayed_of i els =
     (case find (has_message_id i) els of
        Some (Bubble b) \<Rightarrow> data_critique_displayed b
      | _ \<Rightarrow> False)"

text \<open>
  The body of \<^verbatim>\<open>data.scores.forEach\<close> for one entry. The result says whether the body
  threw: \<^verbatim>\<open>undefined.toString()\<close> does, for an entry without \<^verbatim>\<open>critic_score\<close>. The
  attribute \<^verbatim>\<open>data-critique-displayed\<close> is read here, before the detail record is
  requested.
\<close>

definition score_entry :: "score_obj \<Rightarrow> page \<Rightarrow> page \<times> bool" where
  "score_entry scoreObj p =
     (if \<not> list_ex (has_message_id (so_id scoreObj)) (messages p) then (p, False)
      else
        let p1 = p\<lparr>messages := update_first (has_message_id (so_id scoreObj))
                     (on_bubble ensure_red_badge) (messages p)\<rparr>;
            shown = (case badge_of (so_id scoreObj) (messages p1) of
                       None \<Rightarrow> Blank | Some c \<Rightarrow> badge_shown c)
        in (case so_critic_score scoreObj of
              Null \<Rightarrow> (p1, False)
            | Undefined \<Rightarrow> (p1, True)
            | Number x \<Rightarrow>
                if shows_number shown x then (p1, False)
                else
                  let p2 = p1\<lparr>messages := update_first (has_message_id (so_id scoreObj))
                               (on_bubble (set_badge_text (AsString x))) (messages p1)\<rparr>
                  in if \<not> critique_displayed_of (so_id scoreObj) (messages p2)
                        \<and> so_id scoreObj \<noteq> []
                     then (p2\<lparr>detail_fetches := detail_fetches p2 @ [so_id scoreObj]\<rparr>, False)
                     else (p2, False)))"

text \<open>\<^verbatim>\<open>forEach\<close> over the entries; an exception leaves the loop and is caught outside.\<close>

fun scores_forEach :: "score_obj list \<Rightarrow> page \<Rightarrow> page" where
  "scores_forEach [] p = p"
| "scores_forEach (scoreObj # rest) p =
     (case score_entry scoreObj p of
        (p', True) \<Rightarrow> p'
      | (p', False) \<Rightarrow> scores_forEach rest p')"

text \<open>
  \<^verbatim>\<open>pollCriticScores\<close> up to its \<^verbatim>\<open>await fetch\<close>, run by a timer every five seconds:
  without a chat id (\<^verbatim>\<open>null\<close> or empty) it returns at once, otherwise it requests the
  scores of the chat.
\<close>

definition pollCriticScores_begin :: "page \<Rightarrow> page" where
  "pollCriticScores_begin p =
     (if \<not> truthy_str (currentChatId p) then p
      else p\<lparr>score_fetches := Suc (score_fetches p)\<rparr>)"

text \<open>
  \<^verbatim>\<open>pollCriticScores\<close> from the arrival of the scores to its end; \<open>None\<close> is a body
  without \<^verbatim>\<open>scores\<close>. Scores arrive only for a request that is outstanding. The
  function does not look at \<^verbatim>\<open>response.ok\<close>; a response that is not ok stands here for
  one whose body has no scores.
\<close>

definition pollCriticScores_end :: "score_obj list option fetched \<Rightarrow> page \<Rightarrow> page" where
  "pollCriticScores_end r p =
     (if score_fetches p = 0 then p
      else
        let p1 = p\<lparr>score_fetches := score_fetches p - 1\<rparr>
        in (case r of
              Ok (Some scores) \<Rightarrow> scores_forEach scores p1
            | _ \<Rightarrow> p1))"

definition section_throws :: "critique_section option \<Rightarrow> bool" where
  "section_throws s = (case s of None \<Rightarrow> False | Some c \<Rightarrow> sec_score c = None)"

text \<open>
  \<^verbatim>\<open>displayCritiqueAndRegeneration\<close> passes \<^verbatim>\<open>section.score\<close> where
  \<^verbatim>\<open>createCritiqueSection\<close> expects the section, so building the container throws on a
  section without a score; the function's own \<^verbatim>\<open>catch\<close> then leaves the page as it was.
  Scores are numbers here, as in the contract.
\<close>

definition critique_throws :: "critique \<Rightarrow> bool" where
  "critique_throws c =
     (section_throws (adherence_to_search c) \<or> section_throws (question_format c)
      \<or> section_throws (conversational_quality c) \<or> section_throws (contextual_intelligence c)
      \<or> section_throws (overall_effectiveness c))"

definition container_appended :: "message_detail \<Rightarrow> bool" where
  "container_appended message =
     (case md_search_output message of
        Parsed searchData \<Rightarrow>
          has_critic_data searchData
          \<and> (case sd_critique searchData of None \<Rightarrow> True | Some c \<Rightarrow> \<not> critique_throws c)
      | _ \<Rightarrow> False)"

definition displayCritiqueAndRegeneration :: "message_detail \<Rightarrow> node list \<Rightarrow> node list" where
  "displayCritiqueAndRegeneration message els =
     (case md_search_output message of
        Parsed searchData \<Rightarrow>
          if container_appended message then els @ [CritiqueContainer searchData] else els
      | _ \<Rightarrow> els)"

text \<open>
  The \<^verbatim>\<open>then\<close> callback of the detail request that \<^verbatim>\<open>pollCriticScores\<close> made for the
  message \<open>i\<close>; a request that is not outstanding has no callback to run. The attribute
  is written here, after the container has been shown.
\<close>

definition detail_arrived :: "ident \<Rightarrow> message_detail fetched \<Rightarrow> page \<Rightarrow> page" where
  "detail_arrived i r p =
     (if i \<notin> set (detail_fetches p) then p
      else
        let p1 = p\<lparr>detail_fetches := remove1 i (detail_fetches p)\<rparr>
        in (case r of
              Ok msgData \<Rightarrow>
                if md_search_output msgData = NoOutput then p1
                else
                  (if container_appended msgData
                   then log_call (Call_appendCritiqueContainer i) else id)
                    (p1\<lparr>messages :=
                          update_first (has_message_id i)
                            (on_bubble (\<lambda>b. b\<lparr>data_critique_displayed := True\<rparr>))
                            (displayCritiqueAndRegeneration msgData (messages p1))\<rparr>)
            | _ \<Rightarrow> p1))"

section \<open>Interleavings of the critic loop and the refresher\<close>

text \<open>
  What can happen next to one critic loop and the page: a timer fires and its callback
  makes its request, or the answer to an outstanding request arrives and the rest of the
  callback runs. An answer to a request that was not made is no event of the program and
  changes nothing.
\<close>

datatype event =
    CriticTick
  | CriticPoll "message_detail fetched"
  | RefresherTick
  | ScoresArrive "score_obj list option fetched"
  | DetailArrives ident "message_detail fetched"

definition step :: "event \<Rightarrow> critic_loop \<times> page \<Rightarrow> critic_loop \<times> page" where
  "step e lp =
     (case lp of (l, p) \<Rightarrow>
        (case e of
           CriticTick \<Rightarrow> (critic_tick l, p)
         | CriticPoll r \<Rightarrow>
             if critic_fetches l = 0 then (l, p)
             else critic_poll r (l\<lparr>critic_fetches := critic_fetches l - 1\<rparr>, p)
         | RefresherTick \<Rightarrow> (l, pollCriticScores_begin p)
         | ScoresArrive r \<Rightarrow> (l, pollCriticScores_end r p)
         | DetailArrives i r \<Rightarrow> (l, detail_arrived i r p)))"

definition run :: "event list \<Rightarrow> critic_loop \<times> page \<Rightarrow> critic_loop \<times> page" where
  "run es lp = fold step es lp"

text \<open>How often a critique panel has been put on the page for a message.\<close>

definition panels_shown :: "ident \<Rightarrow> page \<Rightarrow> nat" where
  "panels_shown i p =
     count_list (calls p) (Call_displayCritiqueInSteps i)
     + count_list (calls p) (Call_appendCritiqueContainer i)"

section \<open>Submitting a turn\<close>

record user_message =
  um_id :: ident
  um_content :: string

record chat_response =
  cr_error :: "string option"
  cr_chat_id :: "string option"
  cr_user_message :: "user_message option"
  cr_message_id :: "ident option"

definition purge :: "page \<Rightarrow> page" where
  "purge p = log_call Call_removePlaceholders (p\<lparr>messages := removePlaceholders (messages p)\<rparr>)"

definition add_message :: "ident \<Rightarrow> string \<Rightarrow> role \<Rightarrow> bool \<Rightarrow> page \<Rightarrow> page" where
  "add_message i txt r isDummy p =
     log_call (Call_addMessageToChat i)
       (p\<lparr>messages := addMessageToChat (second_assistant p) i txt r Undefined isDummy None None
                        (messages p)\<rparr>)"

text \<open>
  \<^verbatim>\<open>sendToServer(userInput)\<close> up to its \<^verbatim>\<open>await fetch\<close>; \<open>t1\<close> and \<open>t2\<close> are the
  decimal texts of the two \<^verbatim>\<open>Date.now()\<close> readings.
\<close>

definition sendToServer_begin :: "string \<Rightarrow> string \<Rightarrow> string \<Rightarrow> page \<Rightarrow> page" where
  "sendToServer_begin t1 t2 userInput p =
     log_call (Call_fetchChat userInput)
       (add_message (''temp-assistant-'' @ t2) ''Assistant is thinking...'' Assistant True
         (add_message (''temp-user-'' @ t1) userInput User True
           (p\<lparr>user_input := []\<rparr>)))"

text \<open>The path of \<^verbatim>\<open>sendToServer\<close> after a response without \<^verbatim>\<open>error\<close>.\<close>

definition sendToServer_success :: "chat_response \<Rightarrow> page \<Rightarrow> status_loop option \<times> page" where
  "sendToServer_success d p =
     (let p1 = (if truthy_str (cr_chat_id d) then p\<lparr>currentChatId := cr_chat_id d\<rparr> else p);
          p2 = purge p1;
          p3 = (case cr_user_message d of
                  None \<Rightarrow> p2
                | Some m \<Rightarrow> add_message (um_id m) (um_content m) User False p2)
      in (case cr_message_id d of
            None \<Rightarrow> (None, p3)
          | Some i \<Rightarrow>
              if i = [] then (None, p3)
              else (case startStatusPolling i p3 of (l, p4) \<Rightarrow> (Some l, p4))))"

text \<open>
  \<^verbatim>\<open>sendToServer\<close> from the arrival of the response to its end. \<open>None\<close> is a request
  that rejected or a body that is not a JSON object: both end in the \<^verbatim>\<open>catch\<close>. The
  status loop that a success starts is returned with the page.
\<close>

definition sendToServer_end :: "chat_response option \<Rightarrow> page \<Rightarrow> status_loop option \<times> page" where
  "sendToServer_end r p =
     (case r of
        None \<Rightarrow>
          (None, add_message ''error'' ''Error: Failed to get response from server.'' Assistant
                   False (purge p))
      | Some d \<Rightarrow>
          (case cr_error d of
             Some e \<Rightarrow>
               if e \<noteq> [] then (None, add_message ''error'' e Assistant False (purge p))
               else sendToServer_success d p
           | None \<Rightarrow> sendToServer_success d p))"

definition fire_timeout :: "string \<Rightarrow> string \<Rightarrow> page \<Rightarrow> page" where
  "fire_timeout t1 t2 p =
     (case timeouts p of
        [] \<Rightarrow> p
      | txt # rest \<Rightarrow> sendToServer_begin t1 t2 txt (p\<lparr>timeouts := rest\<rparr>))"

section \<open>handleSend\<close>

text \<open>
  The characters \<^verbatim>\<open>String.prototype.trim\<close> strips, among the code points up to 255:
  tab, line feed, vertical tab, form feed, carriage return, space and no-break space.
\<close>

definition js_whitespace :: "char \<Rightarrow> bool" where
  "js_whitespace c = (of_char c \<in> {9, 10, 11, 12, 13, 32, 160 :: nat})"

definition trim :: "string \<Rightarrow> string" where
  "trim s = rev (dropWhile js_whitespace (rev (dropWhile js_whitespace s)))"

definition handleSend :: "page \<Rightarrow> page" where
  "handleSend p =
     (let txt = trim (user_input p)
      in if txt = [] then p
         else (add_message ''temp-assistant'' ''Assistant is typing...'' Assistant True
                (add_message ''temp-user'' txt User True (p\<lparr>user_input := []\<rparr>)))
              \<lparr>timeouts := timeouts p @ [txt]\<rparr>)"

definition refreshSession :: "page \<Rightarrow> page" where
  "refreshSession p =
     add_message ''system-refresh'' ''Session refreshed.'' Assistant False
       (p\<lparr>currentChatId := None, messages := clearAllMessages (messages p)\<rparr>)"

section \<open>The time limits\<close>

text \<open>After three minutes, and after two, the timers are cleared whatever the state.\<close>

definition status_ceiling :: "status_loop \<Rightarrow> status_loop" where
  "status_ceiling l = l\<lparr>pollInterval_set := False\<rparr>"

definition critic_ceiling :: "critic_loop \<Rightarrow> critic_loop" where
  "critic_ceiling l = l\<lparr>criticInterval_set := False\<rparr>"

section \<open>Notions used in the properties\<close>

text \<open>The page when the script has loaded and no chat has been started.\<close>

definition fresh_page :: page where
  "fresh_page =
     \<lparr>currentChatId = None, user_input = [], second_assistant = False, messages = [],
      timeouts = [], detail_fetches = [], score_fetches = 0, calls = []\<rparr>"

text \<open>A snapshot on which the status loop shows the response: final status and content.\<close>

definition ready :: "status_data \<Rightarrow> bool" where
  "ready d = (is_final_status (st_status d) \<and> truthy_str (st_content d))"

text \<open>The ids of the \<^verbatim>\<open>addMessageToChat\<close> calls and the statuses rendered, in order.\<close>

definition added :: "page \<Rightarrow> ident list" where
  "added p = concat (map (\<lambda>c. case c of Call_addMessageToChat i \<Rightarrow> [i] | _ \<Rightarrow> []) (calls p))"

definition rendered :: "page \<Rightarrow> string list" where
  "rendered p =
     concat (map (\<lambda>c. case c of Call_updateProcessingStepsDisplay s \<Rightarrow> [s] | _ \<Rightarrow> []) (calls p))"

definition purges :: "page \<Rightarrow> nat" where
  "purges p = count_list (calls p) Call_removePlaceholders"

definition error_bubbles :: "node list \<Rightarrow> nat" where
  "error_bubbles els = length (filter (has_message_id ''error'') els)"

text \<open>A submission that fails: the request rejects, or the body carries \<^verbatim>\<open>error\<close>.\<close>

definition is_failure :: "chat_response option \<Rightarrow> bool" where
  "is_failure r = (case r of None \<Rightarrow> True | Some d \<Rightarrow> truthy_str (cr_error d))"

section \<open>Example inputs\<close>

text \<open>
  A turn whose message is \<^verbatim>\<open>m1\<close>: the snapshot that carries the response, the loop and
  page after the status loop has shown it on the fresh page, and a detail record of the
  message with a critique.
\<close>

definition example_answer :: status_data where
  "example_answer =
     \<lparr>st_status = ''response_generated'', st_message_id = ''m1'',
      st_content = Some ''Here are options'', st_critic_score = Undefined,
      st_processing_data = None\<rparr>"

definition example_answered :: "status_loop \<times> page" where
  "example_answered = status_poll (Ok example_answer) (startStatusPolling ''m1'' fresh_page)"

definition example_critique :: search_data where
  "example_critique =
     \<lparr>sd_critique = Some \<lparr>total_score = Some 8, adherence_to_search = None,
                           question_format = None, conversational_quality = None,
                           contextual_intelligence = None, overall_effectiveness = None,
                           summary = Some ''Clear and relevant''\<rparr>,
      sd_regenerated_content = None, sd_regenerated_total = None\<rparr>"

definition example_detail :: message_detail where
  "example_detail =
     \<lparr>md_id = ''m1'', md_critic_score = Number 8, md_search_output = Parsed example_critique\<rparr>"

text \<open>A snapshot of the turn with the given status and nothing else.\<close>

definition example_snapshot :: "string \<Rightarrow> status_data" where
  "example_snapshot s =
     \<lparr>st_status = s, st_message_id = ''m1'', st_content = None, st_critic_score = Undefined,
      st_processing_data = None\<rparr>"

text \<open>
  Two snapshots of the turn with processing data: the first carries the extracted
  entities, the second, with a later status, does not.
\<close>

definition example_ner :: status_data where
  "example_ner =
     \<lparr>st_status = ''ner_completed'', st_message_id = ''m1'', st_content = None,
      st_critic_score = Undefined,
      st_processing_data =
        Some \<lparr>ner_results = Some ''{destination: Kyoto}'', search_call = None,
              pd_search_results = None, thinking = None\<rparr>\<rparr>"

definition example_search :: status_data where
  "example_search =
     \<lparr>st_status = ''search_started'', st_message_id = ''m1'', st_content = None,
      st_critic_score = Undefined,
      st_processing_data =
        Some \<lparr>ner_results = None, search_call = None, pd_search_results = None,
              thinking = None\<rparr>\<rparr>"

text \<open>
  The submission of a turn on the fresh page, up to the arrival of the server's answer,
  and the answer that names the message \<^verbatim>\<open>m1\<close>.
\<close>

definition example_submitted :: page where
  "example_submitted =
     fire_timeout ''1700000000000'' ''1700000000000''
       (handleSend (fresh_page\<lparr>user_input := ''Plan a trip to Kyoto''\<rparr>))"

definition example_accepted :: chat_response where
  "example_accepted =
     \<lparr>cr_error = None, cr_chat_id = Some ''c1'',
      cr_user_message = Some \<lparr>um_id = ''u1'', um_content = ''Plan a trip to Kyoto''\<rparr>,
      cr_message_id = Some ''m1''\<rparr>"

text \<open>
  The whole example turn on the fresh page: the submission is accepted, which sets the chat
  id \<^verbatim>\<open>c1\<close>, shows the user's message and starts the status loop of \<^verbatim>\<open>m1\<close>, and that
  loop then receives the response.
\<close>

definition example_chat_answered :: "status_loop \<times> page" where
  "example_chat_answered =
     status_poll (Ok example_answer)
       (fst (startStatusPolling ''m1'' fresh_page),
        snd (sendToServer_end (Some example_accepted) example_submitted))"

section \<open>Properties\<close>

subsection \<open>Lookups and updates of the first match\<close>

lemma find_update_first_same:
  "(\<And>x. P x \<Longrightarrow> P (f x)) \<Longrightarrow> find P (update_first P f xs) = map_option f (find P xs)"
  by (induction xs) auto

lemma find_update_first_other:
  "(\<And>x. P x \<Longrightarrow> \<not> Q x \<and> \<not> Q (f x)) \<Longrightarrow> find Q (update_first P f xs) = find Q xs"
  by (induction xs) auto

lemma find_SomeD: "find P xs = Some x \<Longrightarrow> P x"
  by (induction xs) (auto split: if_splits)

lemma find_has_message_id:
  "find (has_message_id i) els = Some n \<Longrightarrow> \<exists>b. n = Bubble b \<and> data_message_id b = Some i"
  by (drule find_SomeD) (cases n; simp add: has_message_id_def)

lemma list_ex_find: "list_ex P xs = (find P xs \<noteq> None)"
  by (induction xs) auto

subsection \<open>The score badge\<close>

lemma has_message_id_set_fixed:
  "has_message_id i n \<Longrightarrow> has_message_id i (on_bubble (set_fixed_badge x) n)"
  by (auto simp: has_message_id_def on_bubble_def set_fixed_badge_def split: node.splits option.splits)

lemma badge_of_updateCriticBadge:
  assumes "list_ex (has_message_id i) els"
  shows "badge_of i (updateCriticBadge i x els) =
           Some \<lparr>badge_colour = (case badge_of i els of None \<Rightarrow> colour_of_score x
                                 | Some c \<Rightarrow> badge_colour c),
                 badge_shown = ToFixed1 x\<rparr>"
proof -
  from assms obtain n where n: "find (has_message_id i) els = Some n"
    by (auto simp: list_ex_find)
  then obtain b where b: "n = Bubble b" "data_message_id b = Some i"
    using find_has_message_id by blast
  have "find (has_message_id i) (updateCriticBadge i x els)
          = Some (Bubble (set_fixed_badge x b))"
    unfolding updateCriticBadge_def
    using find_update_first_same
      [of "has_message_id i" "on_bubble (set_fixed_badge x)" els, OF has_message_id_set_fixed]
    by (simp add: n b on_bubble_def)
  then show ?thesis
    using n b by (simp add: badge_of_def set_fixed_badge_def split: option.splits)
qed

lemma list_ex_updateCriticBadge:
  "list_ex (has_message_id i) (updateCriticBadge i x els) = list_ex (has_message_id i) els"
  unfolding updateCriticBadge_def list_ex_find
  using find_update_first_same
    [of "has_message_id i" "on_bubble (set_fixed_badge x)" els, OF has_message_id_set_fixed]
  by simp

text \<open>
  Claim C9. \<^verbatim>\<open>updateCriticBadge\<close> chooses a colour from the score only when it creates the
  badge: on a message that has a badge, the call keeps the badge's colour and overwrites
  its text, so a second call leaves the colour of the first, whatever the new score.
\<close>

theorem updateCriticBadge_keeps_colour:
  assumes "list_ex (has_message_id i) els"
  shows "badge_of i (updateCriticBadge i x els) =
           Some \<lparr>badge_colour = (case badge_of i els of None \<Rightarrow> colour_of_score x
                                 | Some c \<Rightarrow> badge_colour c),
                 badge_shown = ToFixed1 x\<rparr>
         \<and> map_option badge_colour (badge_of i (updateCriticBadge i y (updateCriticBadge i x els)))
             = map_option badge_colour (badge_of i (updateCriticBadge i x els))"
proof -
  have a: "list_ex (has_message_id i) (updateCriticBadge i x els)"
    using assms by (simp add: list_ex_updateCriticBadge)
  show ?thesis
    by (simp add: badge_of_updateCriticBadge [OF assms] badge_of_updateCriticBadge [OF a])
qed

text \<open>
  A badge created for the score 9.5 is green and stays green when the score becomes 6,
  for which a new badge would be red.
\<close>

theorem updateCriticBadge_keeps_colour_witness:
  "badge_of ''m1''
     (updateCriticBadge ''m1'' 6
       (updateCriticBadge ''m1'' (19 / 2)
         (addMessageToChat False ''m1'' ''Here are options'' Assistant Undefined False None None [])))
     = Some \<lparr>badge_colour = Green, badge_shown = ToFixed1 6\<rparr>
   \<and> colour_of_score 6 = Red"
  using updateCriticBadge_keeps_colour
    [of "''m1''" "updateCriticBadge ''m1'' (19 / 2)
         (addMessageToChat False ''m1'' ''Here are options'' Assistant Undefined False None None [])" 6 6]
  by (simp add: updateCriticBadge_def addMessageToChat_def new_bubble_def has_message_id_def
      on_bubble_def set_fixed_badge_def badge_of_def colour_of_score_def)

subsection \<open>handleSend on blank input\<close>

lemma dropWhile_all_iff: "(\<forall>c\<in>set (dropWhile P s). P c) \<longleftrightarrow> (\<forall>c\<in>set s. P c)"
proof (induction s)
  case Nil
  then show ?case by simp
next
  case (Cons a s)
  then show ?case by auto
qed

lemma trim_empty_iff: "trim s = [] \<longleftrightarrow> (\<forall>c\<in>set s. js_whitespace c)"
proof -
  have "trim s = [] \<longleftrightarrow> (\<forall>c\<in>set (rev (dropWhile js_whitespace s)). js_whitespace c)"
    by (simp add: trim_def)
  also have "\<dots> \<longleftrightarrow> (\<forall>c\<in>set s. js_whitespace c)"
    by (simp add: dropWhile_all_iff)
  finally show ?thesis .
qed

text \<open>
  Claim C10. When the input field holds nothing but whitespace (or nothing at all), its
  trimmed text is empty and \<^verbatim>\<open>handleSend\<close> returns at once: the page is unchanged, so no
  placeholder is added, the field is not cleared and no \<^verbatim>\<open>sendToServer\<close> is scheduled.
  By \<open>trim_empty_iff\<close> these are all the inputs whose trimmed text is empty.
\<close>

theorem handleSend_blank_input:
  assumes "\<forall>c\<in>set (user_input p). js_whitespace c"
  shows "trim (user_input p) = [] \<and> handleSend p = p"
  using assms by (simp add: trim_empty_iff handleSend_def)

text \<open>A space, a tab and a line feed in the field of the freshly loaded page.\<close>

theorem handleSend_blank_input_witness:
  "handleSend (fresh_page\<lparr>user_input := [CHR '' '', CHR 0x09, CHR 0x0A]\<rparr>)
     = fresh_page\<lparr>user_input := [CHR '' '', CHR 0x09, CHR 0x0A]\<rparr>
   \<and> messages (handleSend (fresh_page\<lparr>user_input := [CHR '' '', CHR 0x09, CHR 0x0A]\<rparr>)) = []
   \<and> timeouts (handleSend (fresh_page\<lparr>user_input := [CHR '' '', CHR 0x09, CHR 0x0A]\<rparr>)) = []"
  using handleSend_blank_input [of "fresh_page\<lparr>user_input := [CHR '' '', CHR 0x09, CHR 0x0A]\<rparr>"]
  by (simp add: js_whitespace_def fresh_page_def)

subsection \<open>Purging and adding bubbles\<close>

lemma messages_log_call [simp]: "messages (log_call c p) = messages p"
  by (simp add: log_call_def)

lemma calls_log_call [simp]: "calls (log_call c p) = calls p @ [c]"
  by (simp add: log_call_def)

lemma messages_purge: "messages (purge p) = removePlaceholders (messages p)"
  by (simp add: purge_def)

lemma messages_add_message:
  "messages (add_message i txt r isDummy p) =
     (if list_ex (has_message_id i) (messages p) then messages p
      else messages p @ [Bubble (new_bubble (second_assistant p) i txt r Undefined isDummy None None)])"
  by (simp add: add_message_def addMessageToChat_def)

lemma has_message_id_new_bubble:
  "has_message_id j (Bubble (new_bubble e i txt r v isDummy parentId outputNumber)) \<longleftrightarrow> j = i"
  by (auto simp: has_message_id_def new_bubble_def)

lemma filter_none: "\<not> list_ex P xs \<Longrightarrow> filter P xs = []"
  by (induction xs) auto

lemma length_filter_filter: "length (filter P (filter Q xs)) \<le> length (filter P xs)"
  by (induction xs) auto

lemma error_bubbles_removePlaceholders:
  "error_bubbles (removePlaceholders els) \<le> error_bubbles els"
  unfolding error_bubbles_def removePlaceholders_def
  by (rule order_trans [OF length_filter_filter length_filter_filter])

lemma error_bubbles_purge:
  "error_bubbles (messages p) \<le> Suc 0 \<Longrightarrow> error_bubbles (messages (purge p)) \<le> Suc 0"
  using error_bubbles_removePlaceholders [of "messages p"] by (simp add: messages_purge)

lemma error_bubbles_add_message:
  "error_bubbles (messages p) \<le> Suc 0
     \<Longrightarrow> error_bubbles (messages (add_message i txt r isDummy p)) \<le> Suc 0"
  by (auto simp: messages_add_message error_bubbles_def has_message_id_new_bubble filter_none)

lemma error_bubbles_startStatusPolling:
  "error_bubbles (messages (snd (startStatusPolling i p))) = error_bubbles (messages p)"
  by (simp add: startStatusPolling_def error_bubbles_def has_message_id_def)

lemma error_bubbles_user_message:
  assumes "error_bubbles (messages q) \<le> Suc 0"
  shows "error_bubbles (messages (case cr_user_message d of None \<Rightarrow> purge q
           | Some m \<Rightarrow> add_message (um_id m) (um_content m) User False (purge q))) \<le> Suc 0"
proof (cases "cr_user_message d")
  case None
  then show ?thesis using error_bubbles_purge [OF assms] by simp
next
  case (Some m)
  then show ?thesis using error_bubbles_add_message [OF error_bubbles_purge [OF assms]] by simp
qed

lemma error_bubbles_success:
  assumes "error_bubbles (messages p) \<le> Suc 0"
  shows "error_bubbles (messages (snd (sendToServer_success d p))) \<le> Suc 0"
proof -
  have a: "error_bubbles (messages (p\<lparr>currentChatId := cr_chat_id d\<rparr>)) \<le> Suc 0"
    using assms by simp
  show ?thesis
    using error_bubbles_user_message [OF assms, of d] error_bubbles_user_message [OF a, of d]
    by (simp add: sendToServer_success_def Let_def error_bubbles_startStatusPolling
        case_prod_beta split: option.splits)
qed

lemma error_bubbles_after_failure:
  assumes "error_bubbles (messages p) \<le> Suc 0"
  shows "error_bubbles (messages (add_message ''error'' txt Assistant False (purge p))) = Suc 0"
proof (cases "list_ex (has_message_id ''error'') (removePlaceholders (messages p))")
  case True
  then have "filter (has_message_id ''error'') (removePlaceholders (messages p)) \<noteq> []"
    by (simp add: filter_empty_conv list_ex_iff)
  then have "error_bubbles (removePlaceholders (messages p)) \<noteq> 0"
    by (simp add: error_bubbles_def)
  moreover have "error_bubbles (removePlaceholders (messages p)) \<le> Suc 0"
    using assms error_bubbles_removePlaceholders [of "messages p"] by simp
  ultimately show ?thesis
    using True by (simp add: messages_add_message messages_purge)
next
  case False
  then show ?thesis
    by (simp add: messages_add_message messages_purge error_bubbles_def
        has_message_id_new_bubble filter_none)
qed

text \<open>
  Claim C8. The error bubble of a failed submission is added under the fixed id
  \<^verbatim>\<open>'error'\<close>, and \<^verbatim>\<open>addMessageToChat\<close> appends nothing when an element with the id
  exists. So a page with at most one error bubble keeps at most one, whatever the response;
  after a failed submission it has exactly one; and a failed submission on a page that
  already shows an error bubble changes nothing but the purge of the placeholders: no new
  bubble appears and the text of the old one stays.
\<close>

theorem single_error_bubble:
  assumes "error_bubbles (messages p) \<le> 1"
  shows "error_bubbles (messages (snd (sendToServer_end r p))) \<le> 1
         \<and> (is_failure r \<longrightarrow> error_bubbles (messages (snd (sendToServer_end r p))) = 1)
         \<and> (is_failure r \<and> list_ex (has_message_id ''error'') (removePlaceholders (messages p))
              \<longrightarrow> messages (snd (sendToServer_end r p)) = removePlaceholders (messages p))"
proof -
  have one: "error_bubbles (messages p) \<le> Suc 0"
    using assms by simp
  show ?thesis
  proof (cases r)
  case None
  then show ?thesis
    using error_bubbles_after_failure [OF one]
    by (simp add: sendToServer_end_def messages_add_message messages_purge)
next
  case (Some d)
  show ?thesis
  proof (cases "truthy_str (cr_error d)")
    case True
    then show ?thesis
      using Some error_bubbles_after_failure [OF one]
      by (auto simp: sendToServer_end_def truthy_str_def is_failure_def messages_add_message
          messages_purge split: option.splits)
  next
    case False
    then show ?thesis
      using Some error_bubbles_success [OF one, of d]
      by (auto simp: sendToServer_end_def truthy_str_def is_failure_def split: option.splits)
  qed
  qed
qed

text \<open>
  Two failures in a row on the fresh page: the first leaves one error bubble, the second
  (with another text) leaves the page's elements as they are.
\<close>

theorem single_error_bubble_witness:
  "messages (snd (sendToServer_end
       (Some \<lparr>cr_error = Some ''Server busy'', cr_chat_id = None, cr_user_message = None,
              cr_message_id = None\<rparr>)
       (snd (sendToServer_end None fresh_page))))
     = messages (snd (sendToServer_end None fresh_page))
   \<and> error_bubbles (messages (snd (sendToServer_end None fresh_page))) = 1
   \<and> error_bubbles (messages (snd (sendToServer_end
       (Some \<lparr>cr_error = Some ''Server busy'', cr_chat_id = None, cr_user_message = None,
              cr_message_id = None\<rparr>)
       (snd (sendToServer_end None fresh_page))))) = 1"
  using single_error_bubble
    [of "snd (sendToServer_end None fresh_page)"
        "Some \<lparr>cr_error = Some ''Server busy'', cr_chat_id = None, cr_user_message = None,
               cr_message_id = None\<rparr>"]
  by (simp add: sendToServer_end_def fresh_page_def add_message_def purge_def log_call_def
      addMessageToChat_def removePlaceholders_def new_bubble_def has_message_id_def
      is_dummy_def is_unidentified_assistant_def error_bubbles_def is_failure_def
      truthy_str_def)

subsection \<open>Evaluating the handlers on concrete pages\<close>

lemmas value_defs =
  truthy_str_def truthy_score_def
  has_message_id_def on_bubble_def is_steps_def on_steps_def is_dummy_def
  is_unidentified_assistant_def text_of_score_def set_red_badge_def new_bubble_def
  addMessageToChat_def removePlaceholders_def colour_of_score_def set_fixed_badge_def
  updateCriticBadge_def badge_of_def formatStatus_def statusMap_def getStatusColorClass_def
  search_results_block_def when_truthy_def updateProcessingStepsDisplay_def steps_of_def
  log_call_def startStatusPolling_def startCriticPolling_def is_final_status_def
  status_render_def status_finish_def status_poll_def
  displayCritiqueInSteps_def has_critic_data_def critic_show_def critic_refresh_badge_def
  critic_poll_def ensure_red_badge_def set_badge_text_def critique_displayed_of_def
  score_entry_def pollCriticScores_begin_def pollCriticScores_end_def critic_tick_def
  section_throws_def critique_throws_def
  container_appended_def displayCritiqueAndRegeneration_def detail_arrived_def step_def
  panels_shown_def purge_def add_message_def sendToServer_begin_def
  sendToServer_success_def sendToServer_end_def fire_timeout_def handleSend_def
  fresh_page_def ready_def added_def rendered_def purges_def error_bubbles_def
  example_answer_def example_answered_def example_critique_def example_detail_def
  example_snapshot_def example_ner_def example_search_def example_submitted_def
  example_accepted_def example_chat_answered_def trim_def js_whitespace_def
  shows_number_def tenths_def

subsection \<open>Failed status polls\<close>

text \<open>
  Claim C3, as the code has it. A poll answered with a response that is not ok clears the
  loop's timer and changes nothing on the page: the loop ends without a message to the
  user. A poll whose request rejects ends in the \<^verbatim>\<open>catch\<close>, which only writes to the
  console: the page is unchanged as well, but so is the loop, whose timer stays set, and
  the next tick polls again.
\<close>

theorem failed_status_poll:
  "status_poll NotOk (l, p) = (l\<lparr>pollInterval_set := False\<rparr>, p)
   \<and> status_poll Rejected (l, p) = (l, p)"
  by (simp add: status_poll_def)

theorem failed_status_poll_witness:
  "pollInterval_set (fst (status_poll NotOk (startStatusPolling ''m1'' fresh_page))) = False
   \<and> snd (status_poll NotOk (startStatusPolling ''m1'' fresh_page))
       = snd (startStatusPolling ''m1'' fresh_page)
   \<and> status_poll Rejected (startStatusPolling ''m1'' fresh_page)
       = startStatusPolling ''m1'' fresh_page"
  using failed_status_poll
    [of "fst (startStatusPolling ''m1'' fresh_page)" "snd (startStatusPolling ''m1'' fresh_page)"]
  by simp

text \<open>
  The claim fails for a transport error: after a rejected poll the timer of the loop is
  still set, and the answer of the next poll is shown.
\<close>

theorem rejected_status_poll_counterexample:
  "pollInterval_set (fst (status_poll Rejected (startStatusPolling ''m1'' fresh_page)))
   \<and> added (snd (status_poll (Ok example_answer)
               (status_poll Rejected (startStatusPolling ''m1'' fresh_page)))) = [''m1'']"
  by (simp add: value_defs)

subsection \<open>The badge update of the critic loop\<close>





subsection \<open>One run of the status callback\<close>

lemma rendered_log_call:
  "rendered (log_call c p) =
     rendered p @ (case c of Call_updateProcessingStepsDisplay s \<Rightarrow> [s] | _ \<Rightarrow> [])"
  by (simp add: rendered_def)

lemma added_log_call:
  "added (log_call c p) = added p @ (case c of Call_addMessageToChat i \<Rightarrow> [i] | _ \<Rightarrow> [])"
  by (simp add: added_def)

lemma rendered_messages [simp]: "rendered (p\<lparr>messages := els\<rparr>) = rendered p"
  by (simp add: rendered_def)

lemma added_messages [simp]: "added (p\<lparr>messages := els\<rparr>) = added p"
  by (simp add: added_def)

lemma status_render_loop:
  "fst (status_render d (l, p)) = l\<lparr>lastStatus := st_status d\<rparr>"
  by (simp add: status_render_def)

lemma status_render_rendered:
  "rendered (snd (status_render d (l, p))) =
     rendered p @ (if st_status d \<noteq> lastStatus l \<or> lastStatus l = [] then [st_status d] else [])"
  by (simp add: status_render_def rendered_log_call)

lemma status_render_added: "added (snd (status_render d (l, p))) = added p"
  by (simp add: status_render_def added_log_call)

lemma status_finish_loop:
  "fst (status_finish d (l, p)) =
     (if ready d \<and> \<not> finalResponseShown l
      then l\<lparr>finalResponseShown := True, pollInterval_set := False\<rparr> else l)"
  by (auto simp: status_finish_def ready_def truthy_str_def split: option.splits)

lemma status_finish_rendered: "rendered (snd (status_finish d (l, p))) = rendered p"
  by (simp add: status_finish_def rendered_log_call split: option.splits)

lemma status_finish_added:
  "added (snd (status_finish d (l, p))) =
     added p @ (if ready d \<and> \<not> finalResponseShown l then [st_message_id d] else [])"
  by (auto simp: status_finish_def added_log_call ready_def truthy_str_def split: option.splits)


lemma status_poll_Ok: "status_poll (Ok d) lp = status_finish d (status_render d lp)"
  by (simp add: status_poll_def)

lemma status_polls_Cons:
  "status_polls (d # ds) lp = status_polls ds (status_poll (Ok d) lp)"
  by (simp add: status_polls_def)

lemma status_polls_Nil: "status_polls [] lp = lp"
  by (simp add: status_polls_def)

lemma status_poll_fields:
  "lastStatus (fst (status_poll (Ok d) (l, p))) = st_status d
   \<and> finalResponseShown (fst (status_poll (Ok d) (l, p))) = (finalResponseShown l \<or> ready d)
   \<and> pollInterval_set (fst (status_poll (Ok d) (l, p)))
       = (pollInterval_set l \<and> \<not> (ready d \<and> \<not> finalResponseShown l))
   \<and> rendered (snd (status_poll (Ok d) (l, p)))
       = rendered p @ (if st_status d \<noteq> lastStatus l \<or> lastStatus l = [] then [st_status d] else [])
   \<and> added (snd (status_poll (Ok d) (l, p)))
       = added p @ (if ready d \<and> \<not> finalResponseShown l then [st_message_id d] else [])"
proof -
  obtain l1 p1 where r: "status_render d (l, p) = (l1, p1)"
    by (cases "status_render d (l, p)")
  have l1: "l1 = l\<lparr>lastStatus := st_status d\<rparr>"
    using status_render_loop [of d l p] r by simp
  have p1: "rendered p1 = rendered p @
      (if st_status d \<noteq> lastStatus l \<or> lastStatus l = [] then [st_status d] else [])"
    "added p1 = added p"
    using status_render_rendered [of d l p] status_render_added [of d l p] r by simp_all
  show ?thesis
    using l1 p1
    by (auto simp: status_poll_Ok r status_finish_loop status_finish_rendered status_finish_added)
qed

subsection \<open>The status panel over a sequence of snapshots\<close>

lemma remdups_adj_head: "remdups_adj (x # xs) = x # tl (remdups_adj (x # xs))"
  by (metis hd_Cons_tl hd_remdups_adj list.sel(1) list.distinct(1) remdups_adj_Nil_iff)

lemma rendered_status_polls:
  assumes "\<forall>d\<in>set ds. st_status d \<noteq> []"
  shows "rendered (snd (status_polls ds (l, p)))
           = rendered p @ tl (remdups_adj (lastStatus l # map st_status ds))"
  using assms
proof (induction ds arbitrary: l p)
  case Nil
  then show ?case by (simp add: status_polls_Nil)
next
  case (Cons d ds)
  obtain l1 p1 where s: "status_poll (Ok d) (l, p) = (l1, p1)"
    by (cases "status_poll (Ok d) (l, p)")
  have f: "lastStatus l1 = st_status d"
    "rendered p1 = rendered p @
       (if st_status d \<noteq> lastStatus l \<or> lastStatus l = [] then [st_status d] else [])"
    using status_poll_fields [of d l p] s by simp_all
  have ih: "rendered (snd (status_polls ds (l1, p1)))
              = rendered p1 @ tl (remdups_adj (st_status d # map st_status ds))"
    using Cons.IH [of l1 p1] Cons.prems f by simp
  have ne: "st_status d \<noteq> []"
    using Cons.prems by simp
  show ?case
  proof (cases "st_status d = lastStatus l")
    case True
    then show ?thesis
      using ih f ne by (simp add: status_polls_Cons s)
  next
    case False
    have "tl (remdups_adj (lastStatus l # st_status d # map st_status ds))
            = st_status d # tl (remdups_adj (st_status d # map st_status ds))"
      using False remdups_adj_head [of "st_status d" "map st_status ds"] by simp
    then show ?thesis
      using ih f False by (simp add: status_polls_Cons s)
  qed
qed

lemma find_filter: "(\<And>x. P x \<Longrightarrow> Q x) \<Longrightarrow> find P (filter Q xs) = find P xs"
  by (induction xs) auto

lemma find_snoc: "\<not> P y \<Longrightarrow> find P (xs @ [y]) = find P xs"
  by (induction xs) auto

lemma steps_of_removePlaceholders: "steps_of i (removePlaceholders els) = steps_of i els"
proof -
  have "find (is_steps i) (filter (\<lambda>n. \<not> is_dummy n) els) = find (is_steps i) els" for els
    by (rule find_filter) (auto simp: is_steps_def is_dummy_def split: node.splits)
  moreover have "find (is_steps i) (filter (\<lambda>n. \<not> is_unidentified_assistant n) els)
                   = find (is_steps i) els" for els
    by (rule find_filter)
       (auto simp: is_steps_def is_unidentified_assistant_def split: node.splits)
  ultimately show ?thesis by (simp add: steps_of_def removePlaceholders_def del: filter_filter)
qed

lemma steps_of_addMessageToChat:
  "steps_of i (addMessageToChat e j txt r v isDummy parentId outputNumber els) = steps_of i els"
proof -
  have "find (is_steps i) (update_first (has_message_id j) (on_bubble f) els)
          = find (is_steps i) els" for f
    by (rule find_update_first_other)
       (auto simp: is_steps_def on_bubble_def has_message_id_def split: node.splits)
  then show ?thesis
    by (simp add: steps_of_def addMessageToChat_def find_snoc is_steps_def)
qed

lemma steps_of_status_finish:
  "steps_of i (messages (snd (status_finish d (l, p)))) = steps_of i (messages p)"
  by (simp add: status_finish_def steps_of_addMessageToChat steps_of_removePlaceholders
      split: option.splits)

lemma steps_of_update:
  "steps_of i (update_first (is_steps i) (on_steps (\<lambda>_. bs)) els)
     = map_option (\<lambda>_. bs) (steps_of i els)"
proof -
  have "find (is_steps i) (update_first (is_steps i) (on_steps (\<lambda>_. bs)) els)
          = map_option (on_steps (\<lambda>_. bs)) (find (is_steps i) els)"
    by (rule find_update_first_same) (auto simp: is_steps_def on_steps_def split: node.splits)
  moreover have "find (is_steps i) els = Some n \<Longrightarrow> \<exists>old. n = Steps i old" for n
    by (drule find_SomeD) (cases n; simp add: is_steps_def)
  ultimately show ?thesis
    by (cases "find (is_steps i) els") (auto simp: steps_of_def on_steps_def)
qed

lemma steps_of_status_render:
  "steps_of (sl_messageId l) (messages (snd (status_render d (l, p)))) =
     (if st_status d \<noteq> lastStatus l \<or> lastStatus l = []
      then map_option (\<lambda>_. updateProcessingStepsDisplay d) (steps_of (sl_messageId l) (messages p))
      else steps_of (sl_messageId l) (messages p))"
  by (simp add: status_render_def steps_of_update)

lemma steps_of_status_poll:
  "steps_of (sl_messageId l) (messages (snd (status_poll (Ok d) (l, p)))) =
     (if st_status d \<noteq> lastStatus l \<or> lastStatus l = []
      then map_option (\<lambda>_. updateProcessingStepsDisplay d) (steps_of (sl_messageId l) (messages p))
      else steps_of (sl_messageId l) (messages p))"
proof -
  obtain l1 p1 where r: "status_render d (l, p) = (l1, p1)"
    by (cases "status_render d (l, p)")
  have "steps_of (sl_messageId l) (messages (snd (status_finish d (l1, p1))))
          = steps_of (sl_messageId l) (messages p1)"
    by (rule steps_of_status_finish)
  then show ?thesis
    using steps_of_status_render [of l d p] r by (simp add: status_poll_Ok)
qed

lemma status_codes_not_empty: "\<forall>s\<in>set (map fst statusMap). s \<noteq> []"
  by (simp add: statusMap_def)

text \<open>
  Claim C4. Over the snapshots one status loop receives, each with a status that is not
  empty (as every status code is, by \<open>status_codes_not_empty\<close>), the panel is rendered
  exactly when the status differs from the one rendered last: a callback renders the
  snapshot's status unless it equals \<open>lastStatus\<close>, in which case the steps container
  keeps its content; and from the start of the loop the statuses rendered are the sequence
  of statuses with every run of equal neighbours shortened to one, so the first is always
  rendered. (An empty status would be rendered again on every poll, since the callback
  also renders while \<open>lastStatus\<close> is falsy.)
\<close>

theorem status_panel_rerender:
  assumes "\<forall>d\<in>set ds. st_status d \<noteq> []"
  shows "(lastStatus l = []
           \<longrightarrow> rendered (snd (status_polls ds (l, p))) = rendered p @ remdups_adj (map st_status ds))
         \<and> (\<forall>d\<in>set ds. rendered (snd (status_poll (Ok d) (l, p)))
               = rendered p @ (if st_status d = lastStatus l then [] else [st_status d]))
         \<and> (\<forall>d\<in>set ds. steps_of (sl_messageId l) (messages (snd (status_poll (Ok d) (l, p))))
               = (if st_status d = lastStatus l then steps_of (sl_messageId l) (messages p)
                  else map_option (\<lambda>_. updateProcessingStepsDisplay d)
                         (steps_of (sl_messageId l) (messages p))))"
proof (intro conjI impI ballI)
  assume e: "lastStatus l = []"
  have "remdups_adj ([] # map st_status ds) = [] # remdups_adj (map st_status ds)"
    using assms by (cases ds) auto
  then show "rendered (snd (status_polls ds (l, p))) = rendered p @ remdups_adj (map st_status ds)"
    using rendered_status_polls [OF assms, of l p] e by simp
next
  fix d assume "d \<in> set ds"
  then have "st_status d \<noteq> []" using assms by simp
  then show "rendered (snd (status_poll (Ok d) (l, p)))
               = rendered p @ (if st_status d = lastStatus l then [] else [st_status d])"
    using status_poll_fields [of d l p] by auto
next
  fix d assume "d \<in> set ds"
  then have "st_status d \<noteq> []" using assms by simp
  then show "steps_of (sl_messageId l) (messages (snd (status_poll (Ok d) (l, p))))
               = (if st_status d = lastStatus l then steps_of (sl_messageId l) (messages p)
                  else map_option (\<lambda>_. updateProcessingStepsDisplay d)
                         (steps_of (sl_messageId l) (messages p)))"
    using steps_of_status_poll [of l d p] by auto
qed

text \<open>
  Five snapshots of a turn, two of them repeating the status before: three renders, and
  the panel shows the last status.
\<close>

theorem status_panel_rerender_witness:
  "rendered (snd (status_polls
       [example_snapshot ''processing_started'', example_snapshot ''processing_started'',
        example_snapshot ''ner_started'', example_snapshot ''ner_started'', example_answer]
       (startStatusPolling ''m1'' fresh_page)))
     = [''processing_started'', ''ner_started'', ''response_generated'']
   \<and> steps_of ''m1'' (messages (snd (status_polls
       [example_snapshot ''processing_started'', example_snapshot ''processing_started'',
        example_snapshot ''ner_started'', example_snapshot ''ner_started'', example_answer]
       (startStatusPolling ''m1'' fresh_page))))
     = Some [Heading ''Processing Your Request'', StatusLine Blue ''Response Generated'']"
  using status_panel_rerender
    [of "[example_snapshot ''processing_started'', example_snapshot ''processing_started'',
          example_snapshot ''ner_started'', example_snapshot ''ner_started'', example_answer]"
        "fst (startStatusPolling ''m1'' fresh_page)" "snd (startStatusPolling ''m1'' fresh_page)"]
  by (simp add: value_defs status_polls_Cons status_polls_Nil)

subsection \<open>The end of the status loop\<close>













subsection \<open>What the steps panel shows\<close>

lemma mem_when_truthy: "b \<in> set (when_truthy mk v) \<longleftrightarrow> (\<exists>s. v = Some s \<and> s \<noteq> [] \<and> b = mk s)"
  by (cases v) (auto simp: when_truthy_def)

lemma shown_ner:
  "NerBlock s \<in> set (updateProcessingStepsDisplay d)
     \<longleftrightarrow> s \<noteq> [] \<and> (\<exists>pd. st_processing_data d = Some pd \<and> ner_results pd = Some s)"
proof (cases "st_processing_data d")
  case None
  then show ?thesis by (simp add: updateProcessingStepsDisplay_def)
next
  case (Some pd)
  then show ?thesis
    by (cases "pd_search_results pd")
       (auto simp: updateProcessingStepsDisplay_def mem_when_truthy search_results_block_def)
qed

lemma shown_search_call:
  "SearchCallBlock s \<in> set (updateProcessingStepsDisplay d)
     \<longleftrightarrow> s \<noteq> [] \<and> (\<exists>pd. st_processing_data d = Some pd \<and> search_call pd = Some s)"
proof (cases "st_processing_data d")
  case None
  then show ?thesis by (simp add: updateProcessingStepsDisplay_def)
next
  case (Some pd)
  then show ?thesis
    by (cases "pd_search_results pd")
       (auto simp: updateProcessingStepsDisplay_def mem_when_truthy search_results_block_def)
qed

lemma shown_thinking:
  "ThinkingBlock s \<in> set (updateProcessingStepsDisplay d)
     \<longleftrightarrow> s \<noteq> [] \<and> (\<exists>pd. st_processing_data d = Some pd \<and> thinking pd = Some s)"
proof (cases "st_processing_data d")
  case None
  then show ?thesis by (simp add: updateProcessingStepsDisplay_def)
next
  case (Some pd)
  then show ?thesis
    by (cases "pd_search_results pd")
       (auto simp: updateProcessingStepsDisplay_def mem_when_truthy search_results_block_def)
qed

lemma shown_search_results:
  "(\<exists>n b t. SearchResultsBlock n b t \<in> set (updateProcessingStepsDisplay d))
     \<longleftrightarrow> (\<exists>pd r. st_processing_data d = Some pd \<and> pd_search_results pd = Some r)"
proof (cases "st_processing_data d")
  case None
  then show ?thesis by (simp add: updateProcessingStepsDisplay_def)
next
  case (Some pd)
  then show ?thesis
    by (cases "pd_search_results pd")
       (auto simp: updateProcessingStepsDisplay_def mem_when_truthy search_results_block_def)
qed

text \<open>
  Claim C5, as the code has it. A render replaces the content of the steps container by
  the rendering of the snapshot at hand, and that rendering shows a processing-data field
  exactly when the snapshot carries it (for the three texts: a text that is not empty).
  Nothing of the earlier content is kept.
\<close>

theorem steps_panel_shows_snapshot:
  "(st_status d \<noteq> lastStatus l \<and> steps_of (sl_messageId l) (messages p) = Some old
      \<longrightarrow> steps_of (sl_messageId l) (messages (snd (status_poll (Ok d) (l, p))))
            = Some (updateProcessingStepsDisplay d))
   \<and> (NerBlock s \<in> set (updateProcessingStepsDisplay d)
      \<longleftrightarrow> s \<noteq> [] \<and> (\<exists>pd. st_processing_data d = Some pd \<and> ner_results pd = Some s))
   \<and> (SearchCallBlock s \<in> set (updateProcessingStepsDisplay d)
      \<longleftrightarrow> s \<noteq> [] \<and> (\<exists>pd. st_processing_data d = Some pd \<and> search_call pd = Some s))
   \<and> (ThinkingBlock s \<in> set (updateProcessingStepsDisplay d)
      \<longleftrightarrow> s \<noteq> [] \<and> (\<exists>pd. st_processing_data d = Some pd \<and> thinking pd = Some s))
   \<and> ((\<exists>n b t. SearchResultsBlock n b t \<in> set (updateProcessingStepsDisplay d))
      \<longleftrightarrow> (\<exists>pd r. st_processing_data d = Some pd \<and> pd_search_results pd = Some r))"
  using steps_of_status_poll [of l d p] shown_ner [of s d] shown_search_call [of s d]
    shown_thinking [of s d] shown_search_results [of d]
  by simp

text \<open>
  The second example snapshot rendered after the first: the panel is the rendering of the
  second, which has no block for the entities, since the snapshot does not carry them.
\<close>

theorem steps_panel_shows_snapshot_witness:
  "steps_of ''m1'' (messages (snd (status_poll (Ok example_search)
       (status_poll (Ok example_ner) (startStatusPolling ''m1'' fresh_page)))))
     = Some (updateProcessingStepsDisplay example_search)
   \<and> NerBlock ''{destination: Kyoto}'' \<notin> set (updateProcessingStepsDisplay example_search)
   \<and> NerBlock ''{destination: Kyoto}'' \<in> set (updateProcessingStepsDisplay example_ner)"
proof -
  have s1: "status_poll (Ok example_ner) (startStatusPolling ''m1'' fresh_page)
              = (\<lparr>sl_messageId = ''m1'', lastStatus = ''ner_completed'',
                  finalResponseShown = False, pollInterval_set = True\<rparr>,
                 \<lparr>currentChatId = None, user_input = [], second_assistant = False,
                  messages = [Steps ''m1'' (updateProcessingStepsDisplay example_ner)],
                  timeouts = [], detail_fetches = [], score_fetches = 0,
                  calls = [Call_startStatusPolling ''m1'',
                           Call_updateProcessingStepsDisplay ''ner_completed'']\<rparr>)"
    by (simp add: status_poll_def status_render_def status_finish_def startStatusPolling_def
        fresh_page_def log_call_def example_ner_def is_steps_def on_steps_def)
  have pre: "st_status example_search \<noteq> ''ner_completed''"
    by (simp add: example_search_def)
  have old: "steps_of ''m1'' [Steps ''m1'' (updateProcessingStepsDisplay example_ner)]
               = Some (updateProcessingStepsDisplay example_ner)"
    by (simp add: steps_of_def is_steps_def)
  have a: "steps_of ''m1'' (messages (snd (status_poll (Ok example_search)
       (status_poll (Ok example_ner) (startStatusPolling ''m1'' fresh_page)))))
     = Some (updateProcessingStepsDisplay example_search)"
    using steps_panel_shows_snapshot
      [of example_search "fst (status_poll (Ok example_ner) (startStatusPolling ''m1'' fresh_page))"
          "snd (status_poll (Ok example_ner) (startStatusPolling ''m1'' fresh_page))"
          "updateProcessingStepsDisplay example_ner" "''{destination: Kyoto}''"]
      pre old
    by (simp add: s1)
  have b: "NerBlock ''{destination: Kyoto}'' \<notin> set (updateProcessingStepsDisplay example_search)"
    by (simp add: updateProcessingStepsDisplay_def example_search_def when_truthy_def)
  have c: "NerBlock ''{destination: Kyoto}'' \<in> set (updateProcessingStepsDisplay example_ner)"
    by (simp add: updateProcessingStepsDisplay_def example_ner_def when_truthy_def)
  show ?thesis
    using a b c by simp
qed

text \<open>
  The claim fails when a later snapshot lacks a field: the entities are on the panel after
  the first snapshot and gone after the second.
\<close>

theorem steps_panel_retracts_counterexample:
  "steps_of ''m1'' (messages (snd (status_polls [example_ner]
       (startStatusPolling ''m1'' fresh_page))))
     = Some [Heading ''Processing Steps'', StatusLine Blue ''Preferences Extracted'',
             NerBlock ''{destination: Kyoto}'']
   \<and> steps_of ''m1'' (messages (snd (status_polls [example_ner, example_search]
       (startStatusPolling ''m1'' fresh_page))))
     = Some [Heading ''Processing Steps'', StatusLine Blue ''Generating Search Query...'']"
  by (simp add: value_defs sublist_code status_polls_Cons status_polls_Nil)

subsection \<open>Purging the placeholders\<close>

lemma purges_log_call:
  "purges (log_call c p) = purges p + (if c = Call_removePlaceholders then 1 else 0)"
  by (simp add: purges_def)

lemma purges_messages [simp]: "purges (p\<lparr>messages := els\<rparr>) = purges p"
  by (simp add: purges_def)

lemma purges_purge: "purges (purge p) = purges p + 1"
  by (simp add: purge_def purges_log_call)

lemma purges_add_message: "purges (add_message i txt r isDummy p) = purges p"
  by (simp add: add_message_def purges_log_call)

lemma purges_startStatusPolling: "purges (snd (startStatusPolling i p)) = purges p"
  by (simp add: startStatusPolling_def purges_log_call)

lemma purges_currentChatId [simp]: "purges (p\<lparr>currentChatId := c\<rparr>) = purges p"
  by (simp add: purges_def)

lemma purges_success: "purges (snd (sendToServer_success d p)) = purges p + 1"
  by (simp add: sendToServer_success_def Let_def case_prod_beta purges_add_message
      purges_startStatusPolling purges_purge split: option.splits)

lemma purges_sendToServer_end: "purges (snd (sendToServer_end r p)) = purges p + 1"
  by (simp add: sendToServer_end_def purges_add_message purges_purge purges_success
      split: option.splits)

lemma no_dummy_removePlaceholders: "\<not> list_ex is_dummy (removePlaceholders els)"
  by (simp add: removePlaceholders_def list_ex_iff)

lemma list_ex_update_first:
  "(\<And>x. Q (f x) = Q x) \<Longrightarrow> list_ex Q (update_first P f xs) = list_ex Q xs"
  by (induction xs) auto

lemma no_dummy_addMessageToChat:
  "\<not> list_ex is_dummy els
     \<Longrightarrow> \<not> list_ex is_dummy (addMessageToChat e i txt r v False parentId outputNumber els)"
proof -
  have "list_ex is_dummy (update_first (has_message_id i) (on_bubble (set_red_badge v)) els)
          = list_ex is_dummy els"
    by (rule list_ex_update_first)
       (auto simp: is_dummy_def on_bubble_def set_red_badge_def split: node.splits option.splits)
  moreover have "\<not> is_dummy (Bubble (new_bubble e i txt r v False parentId outputNumber))"
    by (simp add: is_dummy_def new_bubble_def)
  ultimately show "\<not> list_ex is_dummy els
     \<Longrightarrow> \<not> list_ex is_dummy (addMessageToChat e i txt r v False parentId outputNumber els)"
    by (simp add: addMessageToChat_def)
qed

lemma no_dummy_add_message:
  "\<not> list_ex is_dummy (messages p) \<Longrightarrow> \<not> list_ex is_dummy (messages (add_message i txt r False p))"
  by (simp add: add_message_def no_dummy_addMessageToChat)

lemma no_dummy_purge: "\<not> list_ex is_dummy (messages (purge p))"
  by (simp add: messages_purge no_dummy_removePlaceholders)

lemma no_dummy_success: "\<not> list_ex is_dummy (messages (snd (sendToServer_success d p)))"
proof -
  have a: "\<not> list_ex is_dummy (messages (case cr_user_message d of None \<Rightarrow> purge q
             | Some m \<Rightarrow> add_message (um_id m) (um_content m) User False (purge q)))" for q
    by (cases "cr_user_message d") (simp_all add: no_dummy_purge no_dummy_add_message)
  have b: "\<not> list_ex is_dummy (messages (snd (startStatusPolling i q)))"
    if "\<not> list_ex is_dummy (messages q)" for i q
    using that by (simp add: startStatusPolling_def is_dummy_def)
  show ?thesis
    using a [of p] a [of "p\<lparr>currentChatId := cr_chat_id d\<rparr>"] b
    by (simp add: sendToServer_success_def Let_def case_prod_beta split: option.splits)
qed

lemma no_dummy_sendToServer_end: "\<not> list_ex is_dummy (messages (snd (sendToServer_end r p)))"
  by (simp add: sendToServer_end_def no_dummy_add_message no_dummy_purge no_dummy_success
      split: option.splits)

lemma status_finish_ready:
  assumes "ready d" "\<not> finalResponseShown l"
  shows "calls (snd (status_finish d (l, p)))
           = calls p @ [Call_removePlaceholders, Call_addMessageToChat (st_message_id d),
                        Call_startCriticPolling (sl_messageId l)]
         \<and> \<not> list_ex is_dummy (messages (snd (status_finish d (l, p))))"
  using assms
  by (auto simp: status_finish_def ready_def truthy_str_def no_dummy_addMessageToChat
      no_dummy_removePlaceholders split: option.splits)

lemma status_render_purges: "purges (snd (status_render d (l, p))) = purges p"
  by (simp add: status_render_def purges_log_call)

lemma status_finish_purges:
  "purges (snd (status_finish d (l, p)))
     = purges p + (if ready d \<and> \<not> finalResponseShown l then 1 else 0)"
  by (auto simp: status_finish_def ready_def truthy_str_def purges_log_call split: option.splits)

lemma status_poll_purges:
  "purges (snd (status_poll (Ok d) (l, p)))
     = purges p + (if ready d \<and> \<not> finalResponseShown l then 1 else 0)"
proof -
  obtain l1 p1 where r: "status_render d (l, p) = (l1, p1)"
    by (cases "status_render d (l, p)")
  have "finalResponseShown l1 = finalResponseShown l" "purges p1 = purges p"
    using status_render_loop [of d l p] status_render_purges [of d l p] r by simp_all
  then show ?thesis
    by (simp add: status_poll_Ok r status_finish_purges)
qed

lemma status_poll_no_dummy:
  assumes "ready d" "\<not> finalResponseShown l"
  shows "\<not> list_ex is_dummy (messages (snd (status_poll (Ok d) (l, p))))"
proof -
  obtain l1 p1 where r: "status_render d (l, p) = (l1, p1)"
    by (cases "status_render d (l, p)")
  have "\<not> finalResponseShown l1"
    using status_render_loop [of d l p] r assms by simp
  then show ?thesis
    using status_finish_ready [OF assms(1), of l1 p1] by (simp add: status_poll_Ok r)
qed

lemma calls_purge: "calls (purge p) = calls p @ [Call_removePlaceholders]"
  by (simp add: purge_def)

lemma calls_add_message:
  "calls (add_message i txt r isDummy p) = calls p @ [Call_addMessageToChat i]"
  by (simp add: add_message_def)

lemma messages_add_message_purge:
  "messages (add_message i txt r isDummy (purge p))
     = addMessageToChat (second_assistant p) i txt r Undefined isDummy None None
         (removePlaceholders (messages p))"
  by (simp add: add_message_def purge_def log_call_def)

lemma sendToServer_failure:
  "sendToServer_end r p
     = (None, add_message ''error''
                (case r of None \<Rightarrow> ''Error: Failed to get response from server.''
                 | Some d \<Rightarrow> (case cr_error d of None \<Rightarrow> [] | Some e \<Rightarrow> e))
                Assistant False (purge p))"
  if "is_failure r"
  using that
  by (auto simp: sendToServer_end_def is_failure_def truthy_str_def split: option.splits)

lemma sendToServer_accepted:
  "sendToServer_end (Some d) p = sendToServer_success d p" if "\<not> is_failure (Some d)"
  using that
  by (auto simp: sendToServer_end_def is_failure_def truthy_str_def split: option.splits)

lemma sendToServer_success_calls:
  "calls (snd (sendToServer_success d p))
     = calls p @ Call_removePlaceholders #
         (case cr_user_message d of None \<Rightarrow> [] | Some m \<Rightarrow> [Call_addMessageToChat (um_id m)])
         @ (case cr_message_id d of None \<Rightarrow> []
            | Some i \<Rightarrow> if i = [] then [] else [Call_startStatusPolling i])"
proof -
  have a: "calls (case cr_user_message d of None \<Rightarrow> purge q
             | Some m \<Rightarrow> add_message (um_id m) (um_content m) User False (purge q))
           = calls p @ Call_removePlaceholders #
               (case cr_user_message d of None \<Rightarrow> []
                | Some m \<Rightarrow> [Call_addMessageToChat (um_id m)])"
    if "calls q = calls p" for q
    using that
    by (cases "cr_user_message d") (simp_all add: calls_purge calls_add_message)
  have b: "calls (snd (startStatusPolling i q)) = calls q @ [Call_startStatusPolling i]" for i q
    by (simp add: startStatusPolling_def)
  show ?thesis
    using a [of p] a [of "p\<lparr>currentChatId := cr_chat_id d\<rparr>"]
    by (cases "cr_message_id d")
       (simp_all add: sendToServer_success_def Let_def case_prod_beta b)
qed

lemma sendToServer_success_messages:
  "messages (snd (sendToServer_success d p))
     = (case cr_user_message d of None \<Rightarrow> removePlaceholders (messages p)
        | Some m \<Rightarrow> addMessageToChat (second_assistant p) (um_id m) (um_content m) User
                     Undefined False None None (removePlaceholders (messages p)))
       @ (case cr_message_id d of None \<Rightarrow> []
          | Some i \<Rightarrow> if i = [] then []
                     else [Steps i [Heading ''Processing Your Request'',
                                    Spinner ''Initializing...'']])"
proof -
  have a: "messages (case cr_user_message d of None \<Rightarrow> purge q
             | Some m \<Rightarrow> add_message (um_id m) (um_content m) User False (purge q))
           = (case cr_user_message d of None \<Rightarrow> removePlaceholders (messages p)
              | Some m \<Rightarrow> addMessageToChat (second_assistant p) (um_id m) (um_content m) User
                           Undefined False None None (removePlaceholders (messages p)))"
    if "messages q = messages p" "second_assistant q = second_assistant p" for q
    using that
    by (cases "cr_user_message d") (simp_all add: messages_purge messages_add_message_purge)
  have b: "messages (snd (startStatusPolling i q))
             = messages q @ [Steps i [Heading ''Processing Your Request'',
                                      Spinner ''Initializing...'']]" for i q
    by (simp add: startStatusPolling_def)
  show ?thesis
    using a [of p] a [of "p\<lparr>currentChatId := cr_chat_id d\<rparr>"]
    by (cases "cr_message_id d")
       (simp_all add: sendToServer_success_def Let_def case_prod_beta b)
qed

lemma status_finish_ready_messages:
  assumes "ready d" "\<not> finalResponseShown l" "st_content d = Some content"
  shows "messages (snd (status_finish d (l, p)))
           = addMessageToChat (second_assistant p) (st_message_id d) content Assistant
               (st_critic_score d) False None None (removePlaceholders (messages p))"
  using assms by (simp add: status_finish_def ready_def truthy_str_def log_call_def)

text \<open>
  Claim C6, as the code has it. \<^verbatim>\<open>removePlaceholders\<close> runs once in every step that
  inserts a resolved message, before the insertion: once when the answer to the submission
  arrives, before the user's message or the error message, and once more in the status
  loop, before the assistant's message. In both steps the purge is the first call, the
  insertions follow it, and the message is inserted into the purged list of elements.
  After each of these steps no placeholder bubble is on the page. A status callback that
  does not show the response does not purge.
\<close>

theorem placeholders_purged_before_insert:
  "purges (snd (sendToServer_end r p)) = purges p + 1
   \<and> \<not> list_ex is_dummy (messages (snd (sendToServer_end r p)))
   \<and> purges (snd (status_poll (Ok d) (l, p)))
       = purges p + (if ready d \<and> \<not> finalResponseShown l then 1 else 0)
   \<and> (ready d \<and> \<not> finalResponseShown l \<longrightarrow>
        \<not> list_ex is_dummy (messages (snd (status_poll (Ok d) (l, p))))
        \<and> calls (snd (status_finish d (l, p)))
            = calls p @ [Call_removePlaceholders, Call_addMessageToChat (st_message_id d),
                         Call_startCriticPolling (sl_messageId l)])
   \<and> (ready d \<and> \<not> finalResponseShown l \<and> st_content d = Some content \<longrightarrow>
        messages (snd (status_finish d (l, p)))
          = addMessageToChat (second_assistant p) (st_message_id d) content Assistant
              (st_critic_score d) False None None (removePlaceholders (messages p)))
   \<and> (is_failure r \<longrightarrow>
        calls (snd (sendToServer_end r p))
          = calls p @ [Call_removePlaceholders, Call_addMessageToChat ''error'']
        \<and> messages (snd (sendToServer_end r p))
            = addMessageToChat (second_assistant p) ''error''
                (case r of None \<Rightarrow> ''Error: Failed to get response from server.''
                 | Some a \<Rightarrow> (case cr_error a of None \<Rightarrow> [] | Some e \<Rightarrow> e))
                Assistant Undefined False None None (removePlaceholders (messages p)))
   \<and> (r = Some a \<and> \<not> is_failure r \<longrightarrow>
        calls (snd (sendToServer_end r p))
          = calls p @ Call_removePlaceholders #
              (case cr_user_message a of None \<Rightarrow> []
               | Some m \<Rightarrow> [Call_addMessageToChat (um_id m)])
              @ (case cr_message_id a of None \<Rightarrow> []
                 | Some i \<Rightarrow> if i = [] then [] else [Call_startStatusPolling i])
        \<and> messages (snd (sendToServer_end r p))
            = (case cr_user_message a of None \<Rightarrow> removePlaceholders (messages p)
               | Some m \<Rightarrow> addMessageToChat (second_assistant p) (um_id m) (um_content m) User
                            Undefined False None None (removePlaceholders (messages p)))
              @ (case cr_message_id a of None \<Rightarrow> []
                 | Some i \<Rightarrow> if i = [] then []
                            else [Steps i [Heading ''Processing Your Request'',
                                           Spinner ''Initializing...'']]))"
proof -
  have old: "purges (snd (sendToServer_end r p)) = purges p + 1
   \<and> \<not> list_ex is_dummy (messages (snd (sendToServer_end r p)))
   \<and> purges (snd (status_poll (Ok d) (l, p)))
       = purges p + (if ready d \<and> \<not> finalResponseShown l then 1 else 0)
   \<and> (ready d \<and> \<not> finalResponseShown l \<longrightarrow>
        \<not> list_ex is_dummy (messages (snd (status_poll (Ok d) (l, p))))
        \<and> calls (snd (status_finish d (l, p)))
            = calls p @ [Call_removePlaceholders, Call_addMessageToChat (st_message_id d),
                         Call_startCriticPolling (sl_messageId l)])"
    using purges_sendToServer_end [of r p] no_dummy_sendToServer_end [of r p]
      status_poll_purges [of d l p] status_poll_no_dummy [of d l p]
      status_finish_ready [of d l p]
    by simp
  have fin: "messages (snd (status_finish d (l, p)))
          = addMessageToChat (second_assistant p) (st_message_id d) content Assistant
              (st_critic_score d) False None None (removePlaceholders (messages p))"
    if "ready d \<and> \<not> finalResponseShown l \<and> st_content d = Some content"
    using that status_finish_ready_messages [of d l content p] by simp
  have fail: "calls (snd (sendToServer_end r p))
          = calls p @ [Call_removePlaceholders, Call_addMessageToChat ''error'']
        \<and> messages (snd (sendToServer_end r p))
            = addMessageToChat (second_assistant p) ''error''
                (case r of None \<Rightarrow> ''Error: Failed to get response from server.''
                 | Some a \<Rightarrow> (case cr_error a of None \<Rightarrow> [] | Some e \<Rightarrow> e))
                Assistant Undefined False None None (removePlaceholders (messages p))"
    if "is_failure r"
    by (simp add: sendToServer_failure [OF that] calls_add_message calls_purge
        messages_add_message_purge)
  have acc: "calls (snd (sendToServer_end r p))
          = calls p @ Call_removePlaceholders #
              (case cr_user_message a of None \<Rightarrow> []
               | Some m \<Rightarrow> [Call_addMessageToChat (um_id m)])
              @ (case cr_message_id a of None \<Rightarrow> []
                 | Some i \<Rightarrow> if i = [] then [] else [Call_startStatusPolling i])
        \<and> messages (snd (sendToServer_end r p))
            = (case cr_user_message a of None \<Rightarrow> removePlaceholders (messages p)
               | Some m \<Rightarrow> addMessageToChat (second_assistant p) (um_id m) (um_content m) User
                            Undefined False None None (removePlaceholders (messages p)))
              @ (case cr_message_id a of None \<Rightarrow> []
                 | Some i \<Rightarrow> if i = [] then []
                            else [Steps i [Heading ''Processing Your Request'',
                                           Spinner ''Initializing...'']])"
    if "r = Some a \<and> \<not> is_failure r"
  proof -
    have "sendToServer_end r p = sendToServer_success a p"
      using that sendToServer_accepted [of a p] by auto
    then show ?thesis
      by (simp add: sendToServer_success_calls sendToServer_success_messages)
  qed
  show ?thesis
    using old fin fail acc by blast
qed

lemma example_submitted_page:
  "purges example_submitted = 0 \<and> list_ex is_dummy (messages example_submitted)"
  by (simp add: value_defs Let_def)

text \<open>
  The example turn: the placeholders are on the page when the request is sent and gone
  when its answer has been handled, with one purge, which comes before the insertion of
  the user's message. The same holds when the request fails, and when the answer gives
  the user's message the id of one of the placeholders: the message is shown all the same,
  since the placeholder is gone when the message is inserted.
\<close>

theorem placeholders_purged_before_insert_witness:
  "list_ex is_dummy (messages example_submitted)
   \<and> purges (snd (sendToServer_end (Some example_accepted) example_submitted)) = 1
   \<and> \<not> list_ex is_dummy (messages (snd (sendToServer_end (Some example_accepted) example_submitted)))
   \<and> calls (snd (sendToServer_end (Some example_accepted) example_submitted))
       = calls example_submitted
         @ [Call_removePlaceholders, Call_addMessageToChat ''u1'', Call_startStatusPolling ''m1'']
   \<and> messages (snd (sendToServer_end (Some example_accepted) example_submitted))
       = [Bubble \<lparr>data_message_id = Some ''u1'', data_parent_id = None,
                  data_output_number = None, dummy_message = False, bubble_role = User,
                  bubble_text = ''Plan a trip to Kyoto'', critic_badge = None,
                  prefer_button = False, data_critique_displayed = False\<rparr>,
          Steps ''m1'' [Heading ''Processing Your Request'', Spinner ''Initializing...'']]
   \<and> calls (snd (sendToServer_end None example_submitted))
       = calls example_submitted @ [Call_removePlaceholders, Call_addMessageToChat ''error'']
   \<and> messages (snd (sendToServer_end
         (Some (example_accepted\<lparr>cr_user_message :=
                  Some \<lparr>um_id = ''temp-user'', um_content = ''Plan a trip to Kyoto''\<rparr>\<rparr>))
         example_submitted))
       = [Bubble \<lparr>data_message_id = Some ''temp-user'', data_parent_id = None,
                  data_output_number = None, dummy_message = False, bubble_role = User,
                  bubble_text = ''Plan a trip to Kyoto'', critic_badge = None,
                  prefer_button = False, data_critique_displayed = False\<rparr>,
          Steps ''m1'' [Heading ''Processing Your Request'', Spinner ''Initializing...'']]"
proof -
  have dummies: "removePlaceholders (messages example_submitted) = []"
    by (simp add: value_defs Let_def)
  have second: "second_assistant example_submitted = False"
    by (simp add: value_defs Let_def)
  have ok: "\<not> is_failure (Some example_accepted)"
    by (simp add: is_failure_def example_accepted_def truthy_str_def)
  have ok': "\<not> is_failure (Some (example_accepted\<lparr>cr_user_message :=
                  Some \<lparr>um_id = ''temp-user'', um_content = ''Plan a trip to Kyoto''\<rparr>\<rparr>))"
    by (simp add: is_failure_def example_accepted_def truthy_str_def)
  have failed: "is_failure None"
    by (simp add: is_failure_def)
  note accepted = placeholders_purged_before_insert
      [where r = "Some example_accepted" and p = example_submitted and a = example_accepted
         and d = example_answer and l = "fst (startStatusPolling ''m1'' fresh_page)"
         and content = "''Here are options''"]
  note rejected = placeholders_purged_before_insert
      [where r = None and p = example_submitted and a = example_accepted
         and d = example_answer and l = "fst (startStatusPolling ''m1'' fresh_page)"
         and content = "''Here are options''"]
  note reused = placeholders_purged_before_insert
      [where r = "Some (example_accepted\<lparr>cr_user_message :=
                  Some \<lparr>um_id = ''temp-user'', um_content = ''Plan a trip to Kyoto''\<rparr>\<rparr>)"
         and p = example_submitted
         and a = "example_accepted\<lparr>cr_user_message :=
                  Some \<lparr>um_id = ''temp-user'', um_content = ''Plan a trip to Kyoto''\<rparr>\<rparr>"
         and d = example_answer and l = "fst (startStatusPolling ''m1'' fresh_page)"
         and content = "''Here are options''"]
  have a1: "purges (snd (sendToServer_end (Some example_accepted) example_submitted)) = 1"
    using accepted example_submitted_page by simp
  have a2: "\<not> list_ex is_dummy
              (messages (snd (sendToServer_end (Some example_accepted) example_submitted)))"
    using accepted by simp
  have a3: "calls (snd (sendToServer_end (Some example_accepted) example_submitted))
       = calls example_submitted
         @ [Call_removePlaceholders, Call_addMessageToChat ''u1'', Call_startStatusPolling ''m1'']"
    using conjunct1 [OF mp [OF conjunct2 [OF conjunct2 [OF conjunct2 [OF conjunct2
            [OF conjunct2 [OF conjunct2 [OF accepted]]]]]]]] ok
    by (simp add: example_accepted_def)
  have a4: "messages (snd (sendToServer_end (Some example_accepted) example_submitted))
       = [Bubble \<lparr>data_message_id = Some ''u1'', data_parent_id = None,
                  data_output_number = None, dummy_message = False, bubble_role = User,
                  bubble_text = ''Plan a trip to Kyoto'', critic_badge = None,
                  prefer_button = False, data_critique_displayed = False\<rparr>,
          Steps ''m1'' [Heading ''Processing Your Request'', Spinner ''Initializing...'']]"
    using conjunct2 [OF mp [OF conjunct2 [OF conjunct2 [OF conjunct2 [OF conjunct2
            [OF conjunct2 [OF conjunct2 [OF accepted]]]]]]]] ok
    by (simp add: example_accepted_def dummies second addMessageToChat_def new_bubble_def
        truthy_str_def)
  have r1: "calls (snd (sendToServer_end None example_submitted))
       = calls example_submitted @ [Call_removePlaceholders, Call_addMessageToChat ''error'']"
    using conjunct1 [OF mp [OF conjunct1 [OF conjunct2 [OF conjunct2 [OF conjunct2
            [OF conjunct2 [OF conjunct2 [OF rejected]]]]]]]] failed
    by simp
  have u1: "messages (snd (sendToServer_end
         (Some (example_accepted\<lparr>cr_user_message :=
                  Some \<lparr>um_id = ''temp-user'', um_content = ''Plan a trip to Kyoto''\<rparr>\<rparr>))
         example_submitted))
       = [Bubble \<lparr>data_message_id = Some ''temp-user'', data_parent_id = None,
                  data_output_number = None, dummy_message = False, bubble_role = User,
                  bubble_text = ''Plan a trip to Kyoto'', critic_badge = None,
                  prefer_button = False, data_critique_displayed = False\<rparr>,
          Steps ''m1'' [Heading ''Processing Your Request'', Spinner ''Initializing...'']]"
    using conjunct2 [OF mp [OF conjunct2 [OF conjunct2 [OF conjunct2 [OF conjunct2
            [OF conjunct2 [OF conjunct2 [OF reused]]]]]]]] ok'
    by (simp add: example_accepted_def dummies second addMessageToChat_def new_bubble_def
        truthy_str_def)
  show ?thesis
    using example_submitted_page a1 a2 a3 a4 r1 u1 by simp
qed

text \<open>
  The claim fails in a turn that gets its response: the placeholders are purged when the
  submission is answered and again when the status loop shows the response.
\<close>

theorem placeholders_purged_twice_counterexample:
  "fst (sendToServer_end (Some example_accepted) example_submitted)
     = Some \<lparr>sl_messageId = ''m1'', lastStatus = [], finalResponseShown = False,
             pollInterval_set = True\<rparr>
   \<and> purges example_submitted = 0
   \<and> purges (snd (status_poll (Ok example_answer)
        (\<lparr>sl_messageId = ''m1'', lastStatus = [], finalResponseShown = False,
          pollInterval_set = True\<rparr>,
         snd (sendToServer_end (Some example_accepted) example_submitted)))) = 2"
proof -
  have "fst (sendToServer_end (Some example_accepted) example_submitted)
     = Some \<lparr>sl_messageId = ''m1'', lastStatus = [], finalResponseShown = False,
             pollInterval_set = True\<rparr>"
    by (simp add: sendToServer_end_def sendToServer_success_def example_accepted_def
        startStatusPolling_def Let_def truthy_str_def)
  moreover have "ready example_answer"
    by (simp add: ready_def example_answer_def is_final_status_def truthy_str_def)
  ultimately show ?thesis
    using example_submitted_page
    by (simp add: status_poll_purges purges_sendToServer_end)
qed

subsection \<open>The critique panel\<close>

lemma run_Nil: "run [] lp = lp"
  by (simp add: run_def)

lemma run_Cons: "run (e # es) lp = run es (step e lp)"
  by (simp add: run_def)

text \<open>
  The critic loop on its own shows its panel at most once, in every interleaving: the flag
  \<open>criticShown\<close> is read and set within one callback, and nothing else writes it.
\<close>

lemma critic_poll_shown:
  "count_list (calls (snd (critic_poll r (l, p)))) (Call_displayCritiqueInSteps i)
     \<le> count_list (calls p) (Call_displayCritiqueInSteps i) + (if criticShown l then 0 else 1)
   \<and> (criticShown l \<longrightarrow> criticShown (fst (critic_poll r (l, p))))
   \<and> (count_list (calls (snd (critic_poll r (l, p)))) (Call_displayCritiqueInSteps i)
        \<noteq> count_list (calls p) (Call_displayCritiqueInSteps i)
       \<longrightarrow> criticShown (fst (critic_poll r (l, p))))"
proof (cases r)
  case Rejected
  then show ?thesis by (simp add: critic_poll_def)
next
  case NotOk
  then show ?thesis by (simp add: critic_poll_def)
next
  case (Ok m)
  show ?thesis
  proof (cases "md_search_output m")
    case NoOutput
    then show ?thesis using Ok by (simp add: critic_poll_def)
  next
    case Malformed
    then show ?thesis using Ok by (simp add: critic_poll_def)
  next
    case ParsedNull
    then show ?thesis using Ok by (simp add: critic_poll_def)
  next
    case (Parsed sd)
    then show ?thesis
      using Ok
      by (cases "md_critic_score m")
         (auto simp: critic_poll_def critic_show_def critic_refresh_badge_def)
  qed
qed

lemma calls_score_entry: "calls (fst (score_entry scoreObj p)) = calls p"
  by (cases "so_critic_score scoreObj") (simp_all add: score_entry_def Let_def)

lemma calls_scores_forEach: "calls (scores_forEach scores p) = calls p"
proof (induction scores arbitrary: p)
  case Nil
  then show ?case by simp
next
  case (Cons scoreObj rest)
  obtain p' threw where e: "score_entry scoreObj p = (p', threw)"
    by (cases "score_entry scoreObj p")
  have "calls p' = calls p"
    using calls_score_entry [of scoreObj p] e by simp
  then show ?case
    using Cons.IH [of p'] e by (cases threw) simp_all
qed

lemma calls_pollCriticScores_end: "calls (pollCriticScores_end r p) = calls p"
proof (cases r)
  case (Ok body)
  then show ?thesis
    by (cases body) (simp_all add: pollCriticScores_end_def Let_def calls_scores_forEach)
qed (simp_all add: pollCriticScores_end_def Let_def)

lemma steps_calls_detail_arrived:
  "count_list (calls (detail_arrived j r p)) (Call_displayCritiqueInSteps i)
     = count_list (calls p) (Call_displayCritiqueInSteps i)"
proof (cases r)
  case (Ok m)
  then show ?thesis
    by (simp add: detail_arrived_def Let_def)
qed (simp_all add: detail_arrived_def Let_def)

lemma step_shown:
  "count_list (calls (snd (step e (l, p)))) (Call_displayCritiqueInSteps i)
     \<le> count_list (calls p) (Call_displayCritiqueInSteps i) + (if criticShown l then 0 else 1)
   \<and> (criticShown l \<longrightarrow> criticShown (fst (step e (l, p))))
   \<and> (count_list (calls (snd (step e (l, p)))) (Call_displayCritiqueInSteps i)
        \<noteq> count_list (calls p) (Call_displayCritiqueInSteps i)
       \<longrightarrow> criticShown (fst (step e (l, p))))"
proof (cases e)
  case CriticTick
  then show ?thesis by (simp add: step_def critic_tick_def)
next
  case (CriticPoll r)
  show ?thesis
    using critic_poll_shown [of r "l\<lparr>critic_fetches := critic_fetches l - 1\<rparr>" p i] CriticPoll
    by (auto simp: step_def split: if_splits)
next
  case RefresherTick
  then show ?thesis by (simp add: step_def pollCriticScores_begin_def)
next
  case (ScoresArrive r)
  then show ?thesis by (simp add: step_def calls_pollCriticScores_end)
next
  case (DetailArrives j r)
  then show ?thesis by (simp add: step_def steps_calls_detail_arrived)
qed

lemma critic_loop_shows_once:
  "count_list (calls (snd (run es (l, p)))) (Call_displayCritiqueInSteps i)
     \<le> count_list (calls p) (Call_displayCritiqueInSteps i) + (if criticShown l then 0 else 1)"
proof (induction es arbitrary: l p)
  case Nil
  then show ?case by (simp add: run_Nil)
next
  case (Cons e es)
  obtain l1 p1 where s: "step e (l, p) = (l1, p1)"
    by (cases "step e (l, p)")
  show ?case
    using Cons.IH [of l1 p1] step_shown [of e l p i] s
    by (auto simp: run_Cons split: if_splits)
qed

lemma example_chat_page:
  "snd example_chat_answered
     = \<lparr>currentChatId = Some ''c1'', user_input = [], second_assistant = False,
        messages =
          [Bubble \<lparr>data_message_id = Some ''u1'', data_parent_id = None,
                   data_output_number = None, dummy_message = False, bubble_role = User,
                   bubble_text = ''Plan a trip to Kyoto'', critic_badge = None,
                   prefer_button = False, data_critique_displayed = False\<rparr>,
           Steps ''m1'' [Heading ''Processing Your Request'',
                         StatusLine Blue ''Response Generated''],
           Bubble \<lparr>data_message_id = Some ''m1'', data_parent_id = None,
                   data_output_number = None, dummy_message = False, bubble_role = Assistant,
                   bubble_text = ''Here are options'', critic_badge = None,
                   prefer_button = False, data_critique_displayed = False\<rparr>],
        timeouts = [], detail_fetches = [], score_fetches = 0,
        calls =
          [Call_addMessageToChat ''temp-user'', Call_addMessageToChat ''temp-assistant'',
           Call_addMessageToChat ''temp-user-1700000000000'',
           Call_addMessageToChat ''temp-assistant-1700000000000'',
           Call_fetchChat ''Plan a trip to Kyoto'', Call_removePlaceholders,
           Call_addMessageToChat ''u1'', Call_startStatusPolling ''m1'',
           Call_updateProcessingStepsDisplay ''response_generated'',
           Call_removePlaceholders, Call_addMessageToChat ''m1'',
           Call_startCriticPolling ''m1'']\<rparr>"
  by (simp add: value_defs Let_def)

text \<open>
  Claim C1 does not hold of the code. The refresher reads \<^verbatim>\<open>data-critique-displayed\<close>
  before it requests the detail record and writes it in the callback of that request, and
  the critic loop neither reads nor writes the attribute. Take the page of the example
  turn, which has the chat id \<^verbatim>\<open>c1\<close> and shows the message \<^verbatim>\<open>m1\<close> with no panel so far, and
  the critic loop of \<^verbatim>\<open>m1\<close>. Two interleavings: (1) the refresher runs, receives a score and
  then the detail record, and then the critic loop ticks and receives the same record: the
  page shows a critique container and the critique in the steps container; (2) the
  refresher runs twice and receives a second, different score before the first of its two
  detail requests is answered: the page shows two critique containers. In both the
  message has two panels.
\<close>

theorem critique_panel_shown_twice:
  "currentChatId (snd example_chat_answered) = Some ''c1''
   \<and> panels_shown ''m1'' (snd example_chat_answered) = 0
   \<and> panels_shown ''m1'' (snd (run
        [RefresherTick,
         ScoresArrive (Ok (Some [\<lparr>so_id = ''m1'', so_critic_score = Number 8\<rparr>])),
         DetailArrives ''m1'' (Ok example_detail),
         CriticTick,
         CriticPoll (Ok example_detail)]
        (startCriticPolling ''m1'', snd example_chat_answered))) = 2
   \<and> CritiqueContainer example_critique \<in> set (messages (snd (run
        [RefresherTick,
         ScoresArrive (Ok (Some [\<lparr>so_id = ''m1'', so_critic_score = Number 8\<rparr>])),
         DetailArrives ''m1'' (Ok example_detail),
         CriticTick,
         CriticPoll (Ok example_detail)]
        (startCriticPolling ''m1'', snd example_chat_answered))))
   \<and> steps_of ''m1'' (messages (snd (run
        [RefresherTick,
         ScoresArrive (Ok (Some [\<lparr>so_id = ''m1'', so_critic_score = Number 8\<rparr>])),
         DetailArrives ''m1'' (Ok example_detail),
         CriticTick,
         CriticPoll (Ok example_detail)]
        (startCriticPolling ''m1'', snd example_chat_answered))))
       = Some [Heading ''Processing Your Request'', StatusLine Blue ''Response Generated'',
               CritiqueBlock \<lparr>total_score = Some 8, adherence_to_search = None,
                               question_format = None, conversational_quality = None,
                               contextual_intelligence = None, overall_effectiveness = None,
                               summary = Some ''Clear and relevant''\<rparr>]
   \<and> panels_shown ''m1'' (snd (run
        [RefresherTick,
         ScoresArrive (Ok (Some [\<lparr>so_id = ''m1'', so_critic_score = Number 7\<rparr>])),
         RefresherTick,
         ScoresArrive (Ok (Some [\<lparr>so_id = ''m1'', so_critic_score = Number 8\<rparr>])),
         DetailArrives ''m1'' (Ok example_detail),
         DetailArrives ''m1'' (Ok example_detail)]
        (startCriticPolling ''m1'', snd example_chat_answered))) = 2
   \<and> length (filter (\<lambda>n. n = CritiqueContainer example_critique) (messages (snd (run
        [RefresherTick,
         ScoresArrive (Ok (Some [\<lparr>so_id = ''m1'', so_critic_score = Number 7\<rparr>])),
         RefresherTick,
         ScoresArrive (Ok (Some [\<lparr>so_id = ''m1'', so_critic_score = Number 8\<rparr>])),
         DetailArrives ''m1'' (Ok example_detail),
         DetailArrives ''m1'' (Ok example_detail)]
        (startCriticPolling ''m1'', snd example_chat_answered))))) = 2"
  by (simp add: example_chat_page value_defs run_Cons run_Nil Let_def)

theorem critique_panel_shown_twice_witness:
  "1 < panels_shown ''m1'' (snd (run
        [RefresherTick,
         ScoresArrive (Ok (Some [\<lparr>so_id = ''m1'', so_critic_score = Number 8\<rparr>])),
         DetailArrives ''m1'' (Ok example_detail),
         CriticTick,
         CriticPoll (Ok example_detail)]
        (startCriticPolling ''m1'', snd example_chat_answered)))"
  using critique_panel_shown_twice by simp

text \<open>
  Without a chat id the refresher requests nothing, so no scores arrive: on the page of
  the loop started without a submission the same events of the refresher change nothing.
\<close>

lemma refresher_needs_chat_id:
  "run [RefresherTick,
        ScoresArrive (Ok (Some [\<lparr>so_id = ''m1'', so_critic_score = Number 8\<rparr>])),
        DetailArrives ''m1'' (Ok example_detail)]
       (startCriticPolling ''m1'', snd example_answered)
     = (startCriticPolling ''m1'', snd example_answered)"
  by (simp add: value_defs run_Cons run_Nil Let_def)

end
